theory Spec2Isabelle
  imports Main
begin

section \<open>JavaScript values\<close>

text \<open>
  The client is TypeScript running as JavaScript. Response bodies are parsed JSON that the
  code casts without a check (\<open>data as T\<close>), and the request body is an object literal that
  \<open>JSON.stringify\<close> serialises, so both are modelled as untyped JavaScript values.
  Numbers are restricted to integers: chain ids, HTTP statuses and timeouts in milliseconds
  are integers, and fractional numbers, NaN and the infinities are outside the model.
  An object is its list of own properties, in insertion order; a parsed JSON object has
  the prototype \<open>Object.prototype\<close> and no callable property of its own.
\<close>

datatype jsval =
    JUndefined
  | JNull
  | JBool bool
  | JNum int
  | JStr string
  | JArr "jsval list"
  | JObj "(string \<times> jsval) list"

text \<open>JavaScript truthiness (\<open>!x\<close>, \<open>x || y\<close>, \<open>x ? a : b\<close>).\<close>

fun truthy :: "jsval \<Rightarrow> bool" where
  "truthy JUndefined = False"
| "truthy JNull = False"
| "truthy (JBool b) = b"
| "truthy (JNum n) = (n \<noteq> 0)"
| "truthy (JStr s) = (s \<noteq> [])"
| "truthy (JArr _) = True"
| "truthy (JObj _) = True"

text \<open>The operator \<open>a || b\<close>: the left operand when it is truthy, else the right one.\<close>

definition js_or :: "jsval \<Rightarrow> jsval \<Rightarrow> jsval" where
  "js_or a b = (if truthy a then a else b)"

text \<open>An optional value of a typed interface read as a JavaScript value: a missing one reads
  as \<open>undefined\<close>.\<close>

definition str_val :: "string option \<Rightarrow> jsval" where
  "str_val s = (case s of None \<Rightarrow> JUndefined | Some x \<Rightarrow> JStr x)"

definition num_val :: "int option \<Rightarrow> jsval" where
  "num_val n = (case n of None \<Rightarrow> JUndefined | Some x \<Rightarrow> JNum x)"

text \<open>Decimal digits of a natural number and of an integer.\<close>

fun string_of_nat :: "nat \<Rightarrow> string" where
  "string_of_nat n =
     (if n < 10 then [char_of (48 + n)]
      else string_of_nat (n div 10) @ [char_of (48 + n mod 10)])"

definition string_of_int :: "int \<Rightarrow> string" where
  "string_of_int i = (if i < 0 then CHR ''-'' # string_of_nat (nat (- i)) else string_of_nat (nat i))"

text \<open>\<open>Array.prototype.join\<close> with a comma.\<close>

fun join_comma :: "string list \<Rightarrow> string" where
  "join_comma [] = []"
| "join_comma [s] = s"
| "join_comma (s # t # ss) = s @ '','' @ join_comma (t # ss)"

text \<open>
  \<open>Number::toString\<close>. A safe integer (of magnitude at most \<open>2^53 - 1\<close>) prints as its
  decimal digits. Beyond that the runtime prints the shortest digits that read back as the
  same double, padded with zeros or in exponent form; that algorithm is not modelled, and
  the string is left unspecified.
\<close>

definition MAX_SAFE_INTEGER :: int where
  "MAX_SAFE_INTEGER = 9007199254740991"

definition beyond_safe_integers :: "int \<Rightarrow> string" where
  "beyond_safe_integers n = undefined n"

definition Number_toString :: "int \<Rightarrow> string" where
  "Number_toString n =
     (if - MAX_SAFE_INTEGER \<le> n \<and> n \<le> MAX_SAFE_INTEGER then string_of_int n
      else beyond_safe_integers n)"

text \<open>
  The abstract operation ToString, as template literals and the \<open>Error\<close> constructor apply
  it. It throws a \<open>TypeError\<close> on an object that has a property \<open>toString\<close> of its own: that
  property of a parsed object is not callable, and \<open>Object.prototype.valueOf\<close> returns the
  object itself, so that no primitive value is found. An array is converted by joining the
  conversions of its elements, and throws when one of them does.
\<close>

fun ToString_throws :: "jsval \<Rightarrow> bool"
  and ToString_elems_throw :: "jsval list \<Rightarrow> bool" where
  "ToString_throws (JObj kvs) = (map_of kvs ''toString'' \<noteq> None)"
| "ToString_throws (JArr xs) = ToString_elems_throw xs"
| "ToString_throws JUndefined = False"
| "ToString_throws JNull = False"
| "ToString_throws (JBool _) = False"
| "ToString_throws (JNum _) = False"
| "ToString_throws (JStr _) = False"
| "ToString_elems_throw [] = False"
| "ToString_elems_throw (x # xs) = (ToString_throws x \<or> ToString_elems_throw xs)"

text \<open>
  The string that ToString gives when it does not throw. An array prints its elements
  joined by commas, with \<open>null\<close> and \<open>undefined\<close> elements printed as the empty string; an
  object without a \<open>toString\<close> of its own prints as \<open>[object Object]\<close>.
\<close>

fun ToString :: "jsval \<Rightarrow> string"
  and ToString_elems :: "jsval list \<Rightarrow> string list" where
  "ToString JUndefined = ''undefined''"
| "ToString JNull = ''null''"
| "ToString (JBool b) = (if b then ''true'' else ''false'')"
| "ToString (JNum n) = Number_toString n"
| "ToString (JStr s) = s"
| "ToString (JArr xs) = join_comma (ToString_elems xs)"
| "ToString (JObj _) = ''[object Object]''"
| "ToString_elems [] = []"
| "ToString_elems (x # xs) =
     (if x = JUndefined \<or> x = JNull then [] else ToString x) # ToString_elems xs"

text \<open>\<open>String.prototype.startsWith\<close>.\<close>

definition startsWith :: "string \<Rightarrow> string \<Rightarrow> bool" where
  "startsWith s p = (take (length p) s = p)"

section \<open>Types of the SDK\<close>

text \<open>
  An optional key of the configuration object has three states at run time: the key is
  absent, the key is present with the value \<open>undefined\<close> (which the type \<open>baseUrl?: string\<close>
  admits), or the key carries a value. Object spread tells the first two apart.
\<close>

datatype 'a optkey = Absent | Undefined | Value 'a

text \<open>Reading a property: an absent key and an \<open>undefined\<close> one both read as \<open>undefined\<close>.\<close>

fun read_key :: "'a optkey \<Rightarrow> 'a option" where
  "read_key Absent = None"
| "read_key Undefined = None"
| "read_key (Value v) = Some v"

text \<open>
  \<open>ProofGateConfig\<close>. The interface declares \<open>apiKey\<close> as required, but the constructor
  tests it for falsiness, so a missing key is modelled too.
\<close>

record ProofGateConfig =
  apiKey :: "string optkey"
  baseUrl :: "string optkey"
  chainId :: "int optkey"
  guardrailId :: "string optkey"
  timeout :: "int optkey"

text \<open>\<open>ValidateRequest\<close>; \<open>None\<close> is an omitted (or \<open>undefined\<close>) optional field.\<close>

record ValidateRequest =
  req_from :: string
  req_to :: string
  req_data :: string
  req_value :: "string option"
  req_guardrailId :: "string option"
  req_chainId :: "int option"

text \<open>\<open>ProofGateError\<close>: message, code, optional HTTP status, optional validation result.\<close>

record ProofGateError =
  message :: string
  code :: string
  statusCode :: "nat option"
  validationResult :: "jsval option"

text \<open>What a call can throw: a \<open>ProofGateError\<close>, or another JavaScript error with its
  \<open>name\<close> and \<open>message\<close> (a \<open>TypeError\<close>, a \<open>SyntaxError\<close>, the \<open>AbortError\<close> of an aborted fetch).\<close>

datatype thrown = PGError ProofGateError | JSError string string

text \<open>
  \<^verbatim>\<open>
  constructor(message: string, public code: string, public statusCode?: number,
              public validationResult?: ValidateResponse) {
    super(message);
    this.name = 'ProofGateError';
  }
  \<close>
  \<open>super(message)\<close> stores the empty string for \<open>undefined\<close>, else the argument converted to a
  string, and throws when that conversion does.
\<close>

definition cannot_convert :: thrown where
  "cannot_convert = JSError ''TypeError'' ''Cannot convert object to primitive value''"

definition new_ProofGateError ::
  "jsval \<Rightarrow> string \<Rightarrow> nat option \<Rightarrow> jsval option \<Rightarrow> thrown" where
  "new_ProofGateError m c st res =
     (if m = JUndefined then
        PGError \<lparr>message = [], code = c, statusCode = st, validationResult = res\<rparr>
      else if ToString_throws m then cannot_convert
      else PGError \<lparr>message = ToString m, code = c, statusCode = st, validationResult = res\<rparr>)"

text \<open>
  The private field \<open>this.config\<close>. Its declared type says that \<open>baseUrl\<close>, \<open>chainId\<close> and
  \<open>timeout\<close> are always set; at run time each of them can be \<open>undefined\<close> (\<open>None\<close>).
\<close>

record this_config =
  this_apiKey :: string
  this_baseUrl :: "string option"
  this_chainId :: "int option"
  this_guardrailId :: "string option"
  this_timeout :: "int option"

record ProofGate =
  config :: this_config

section \<open>Construction\<close>

text \<open>
  One key of the object literal \<open>{ key: dflt, ...config }\<close>, or of \<open>{ ...config }\<close> when the
  literal gives the key no default: a key that \<open>config\<close> owns overrides the default, also
  when its value is \<open>undefined\<close>.
\<close>

fun spread_over :: "'a option \<Rightarrow> 'a optkey \<Rightarrow> 'a option" where
  "spread_over dflt Absent = dflt"
| "spread_over dflt Undefined = None"
| "spread_over dflt (Value v) = Some v"

text \<open>
  \<^verbatim>\<open>
  constructor(config: ProofGateConfig) {
    if (!config.apiKey) {
      throw new ProofGateError(
        'API key is required. Get one at https://www.proofgate.xyz/dashboard',
        'MISSING_API_KEY');
    }
    if (!config.apiKey.startsWith('pg_')) {
      throw new ProofGateError(
        'Invalid API key format. Keys start with "pg_"', 'INVALID_API_KEY');
    }
    this.config = {
      baseUrl: 'https://www.proofgate.xyz/api',
      chainId: 56,
      timeout: 30000,
      ...config,
    };
  }
  \<close>
\<close>

definition default_baseUrl :: string where
  "default_baseUrl = ''https://www.proofgate.xyz/api''"

definition missing_api_key :: thrown where
  "missing_api_key =
     PGError \<lparr>message = ''API key is required. Get one at https://www.proofgate.xyz/dashboard'',
              code = ''MISSING_API_KEY'', statusCode = None, validationResult = None\<rparr>"

definition invalid_api_key :: thrown where
  "invalid_api_key =
     PGError \<lparr>message = ''Invalid API key format. Keys start with \"pg_\"'',
              code = ''INVALID_API_KEY'', statusCode = None, validationResult = None\<rparr>"

text \<open>\<open>!config.apiKey\<close> holds when the key reads as \<open>undefined\<close> and when it is the empty
  string; past that test \<open>config.apiKey\<close> is a string \<open>k\<close>.\<close>

definition constructor :: "ProofGateConfig \<Rightarrow> thrown + ProofGate" where
  "constructor cfg =
     (case read_key (apiKey cfg) of
        None \<Rightarrow> Inl missing_api_key
      | Some k \<Rightarrow>
          if \<not> truthy (JStr k) then Inl missing_api_key
          else if \<not> startsWith k ''pg_'' then Inl invalid_api_key
          else
            Inr \<lparr>config =
              \<lparr>this_apiKey = k,
               this_baseUrl = spread_over (Some default_baseUrl) (baseUrl cfg),
               this_chainId = spread_over (Some 56) (chainId cfg),
               this_guardrailId = spread_over None (guardrailId cfg),
               this_timeout = spread_over (Some 30000) (timeout cfg)\<rparr>\<rparr>)"

text \<open>The code of whatever was thrown, when it is a \<open>ProofGateError\<close>.\<close>

fun error_code :: "thrown + 'a \<Rightarrow> string option" where
  "error_code (Inl (PGError e)) = Some (code e)"
| "error_code (Inl (JSError _ _)) = None"
| "error_code (Inr _) = None"

section \<open>The transport, the timer and the caller's objects\<close>

text \<open>
  A call of \<open>fetch(url, init)\<close>: the URL, the method, the headers and the body. The body is
  the JSON document that \<open>JSON.stringify\<close> writes, kept as a tree (the text is not modelled).
\<close>

record http_request =
  url :: string
  http_method :: string
  headers :: "(string \<times> string) list"
  body :: "jsval option"

text \<open>\<open>await response.json()\<close> yields the parsed body, or throws (a \<open>SyntaxError\<close> for a
  body that is not JSON), with the error's name and message.\<close>

datatype json_body = BodyFails string string | Json jsval

record http_response =
  ok :: bool
  status :: nat
  json :: json_body

text \<open>What the network does with one call: \<open>fetch\<close> resolves with a response or rejects
  with an error (name, message), after a number of milliseconds that covers reading the
  body; or nothing ever comes back.\<close>

datatype fetch_result = Resolves http_response | Rejects string string

datatype reply = Never | After nat fetch_result

text \<open>The network is a parameter: it answers the \<open>n\<close>-th call of \<open>fetch\<close> according to the
  request made.\<close>

type_synonym transport = "nat \<Rightarrow> http_request \<Rightarrow> reply"

text \<open>The world around the client: the calls of \<open>fetch\<close> made so far, the timers that are
  armed (handle and delay in milliseconds), and the heap of objects that are passed by
  reference, each address with the own properties of its object.\<close>

record world =
  issued :: "http_request list"
  timers :: "(nat \<times> nat) list"
  objects :: "(nat \<times> (string \<times> jsval) list) list"

text \<open>
  \<open>setTimeout(callback, delay)\<close> as Node.js runs it: a delay that is not a number between
  1 and \<open>2^31 - 1\<close> is replaced by 1 millisecond. The call returns a handle that no armed
  timer has. \<open>clearTimeout\<close> disarms a timer, and a timer that fires is no longer armed.
\<close>

definition TIMEOUT_MAX :: int where
  "TIMEOUT_MAX = 2147483647"

definition timer_delay :: "int option \<Rightarrow> nat" where
  "timer_delay d =
     (case d of None \<Rightarrow> 1 | Some n \<Rightarrow> if 1 \<le> n \<and> n \<le> TIMEOUT_MAX then nat n else 1)"

definition fresh_timer :: "(nat \<times> nat) list \<Rightarrow> nat" where
  "fresh_timer ts = Suc (fold max (map fst ts) 0)"

definition setTimeout :: "int option \<Rightarrow> world \<Rightarrow> nat \<times> world" where
  "setTimeout d w =
     (let t = fresh_timer (timers w) in (t, w\<lparr>timers := timers w @ [(t, timer_delay d)]\<rparr>))"

definition clearTimeout :: "nat \<Rightarrow> world \<Rightarrow> world" where
  "clearTimeout t w = w\<lparr>timers := filter (\<lambda>p. fst p \<noteq> t) (timers w)\<rparr>"

definition timer_fires :: "nat \<Rightarrow> world \<Rightarrow> world" where
  "timer_fires t w = w\<lparr>timers := filter (\<lambda>p. fst p \<noteq> t) (timers w)\<rparr>"

text \<open>
  \<open>JSON.stringify\<close>, up to the text: a property whose value is \<open>undefined\<close> is left out of
  an object, and an \<open>undefined\<close> element of an array is written as \<open>null\<close>.
\<close>

fun JSON_stringify :: "jsval \<Rightarrow> jsval"
  and JSON_props :: "(string \<times> jsval) list \<Rightarrow> (string \<times> jsval) list"
  and JSON_elems :: "jsval list \<Rightarrow> jsval list" where
  "JSON_stringify (JObj kvs) = JObj (JSON_props kvs)"
| "JSON_stringify (JArr xs) = JArr (JSON_elems xs)"
| "JSON_stringify JUndefined = JUndefined"
| "JSON_stringify JNull = JNull"
| "JSON_stringify (JBool b) = JBool b"
| "JSON_stringify (JNum n) = JNum n"
| "JSON_stringify (JStr s) = JStr s"
| "JSON_props [] = []"
| "JSON_props ((k, v) # kvs) =
     (if v = JUndefined then JSON_props kvs else (k, JSON_stringify v) # JSON_props kvs)"
| "JSON_elems [] = []"
| "JSON_elems (x # xs) = (if x = JUndefined then JNull else JSON_stringify x) # JSON_elems xs"

text \<open>
  Reading a property \<open>v.k\<close> of a parsed JSON value, for the keys the client reads (\<open>error\<close>,
  \<open>message\<close>, \<open>safe\<close>, \<open>reason\<close>): an object gives its property or \<open>undefined\<close>, a boolean,
  number, string or array has no such property, and \<open>null\<close> throws a \<open>TypeError\<close> (with the
  message of V8).
\<close>

definition cannot_read :: "string \<Rightarrow> string \<Rightarrow> thrown" where
  "cannot_read what k =
     JSError ''TypeError''
       (''Cannot read properties of '' @ what @ '' (reading '' @ [CHR 0x27] @ k @ [CHR 0x27] @ '')'')"

definition own_prop :: "(string \<times> jsval) list \<Rightarrow> string \<Rightarrow> jsval" where
  "own_prop kvs k = (case map_of kvs k of None \<Rightarrow> JUndefined | Some v \<Rightarrow> v)"

fun get_prop :: "jsval \<Rightarrow> string \<Rightarrow> thrown + jsval" where
  "get_prop (JObj kvs) k = Inr (own_prop kvs k)"
| "get_prop JNull k = Inl (cannot_read ''null'' k)"
| "get_prop JUndefined k = Inl (cannot_read ''undefined'' k)"
| "get_prop (JBool _) k = Inr JUndefined"
| "get_prop (JNum _) k = Inr JUndefined"
| "get_prop (JStr _) k = Inr JUndefined"
| "get_prop (JArr _) k = Inr JUndefined"

text \<open>What a read \<open>v.k\<close> gives when it does not throw.\<close>

definition read_prop :: "jsval \<Rightarrow> string \<Rightarrow> jsval" where
  "read_prop v k = (case v of JObj kvs \<Rightarrow> own_prop kvs k | _ \<Rightarrow> JUndefined)"

section \<open>The shared request routine\<close>

text \<open>The optional second argument of \<open>request\<close>; its default \<open>{}\<close> has neither key.\<close>

record options =
  opt_method :: "string option"
  opt_body :: "jsval option"

definition no_options :: options where
  "no_options = \<lparr>opt_method = None, opt_body = None\<rparr>"

text \<open>\<open>options.method || 'GET'\<close>.\<close>

definition method_or_GET :: "string option \<Rightarrow> string" where
  "method_or_GET m = ToString (js_or (str_val m) (JStr ''GET''))"

text \<open>\<open>options.body ? JSON.stringify(options.body) : undefined\<close>.\<close>

definition body_or_undefined :: "jsval option \<Rightarrow> jsval option" where
  "body_or_undefined b =
     (case b of None \<Rightarrow> None | Some v \<Rightarrow> if truthy v then Some (JSON_stringify v) else None)"

text \<open>
  \<^verbatim>\<open>data.error || data.message || `HTTP ${response.status}`\<close>, with the operands read
  from left to right and only as far as needed.
\<close>

definition api_error_message :: "jsval \<Rightarrow> nat \<Rightarrow> thrown + jsval" where
  "api_error_message data st =
     (case get_prop data ''error'' of
        Inl e \<Rightarrow> Inl e
      | Inr a \<Rightarrow>
          if truthy a then Inr a
          else (case get_prop data ''message'' of
                  Inl e \<Rightarrow> Inl e
                | Inr b \<Rightarrow> Inr (js_or b (JStr (''HTTP '' @ ToString (JNum (int st)))))))"

text \<open>
  The body of the \<open>try\<close> block once \<open>fetch\<close> has resolved:
  \<^verbatim>\<open>
      const data = await response.json();
      if (!response.ok) {
        throw new ProofGateError(
          data.error || data.message || `HTTP ${response.status}`,
          'API_ERROR', response.status);
      }
      return data as T;
  \<close>
\<close>

definition on_response :: "http_response \<Rightarrow> thrown + jsval" where
  "on_response response =
     (case json response of
        BodyFails n m \<Rightarrow> Inl (JSError n m)
      | Json data \<Rightarrow>
          if \<not> ok response then
            (case api_error_message data (status response) of
               Inl e \<Rightarrow> Inl e
             | Inr m \<Rightarrow> Inl (new_ProofGateError m ''API_ERROR'' (Some (status response)) None))
          else Inr data)"

text \<open>
  The \<open>catch\<close> block. A \<open>ProofGateError\<close> has the name \<open>ProofGateError\<close>, so it fails the
  first test and is thrown again by the second.
  \<^verbatim>\<open>
      if (error.name === 'AbortError') {
        throw new ProofGateError('Request timeout', 'TIMEOUT');
      }
      if (error instanceof ProofGateError) { throw error; }
      throw new ProofGateError(error.message, 'NETWORK_ERROR');
  \<close>
\<close>

definition request_timeout :: thrown where
  "request_timeout =
     PGError \<lparr>message = ''Request timeout'', code = ''TIMEOUT'',
              statusCode = None, validationResult = None\<rparr>"

fun catch_error :: "thrown \<Rightarrow> thrown" where
  "catch_error (JSError n m) =
     (if n = ''AbortError'' then request_timeout
      else
        PGError \<lparr>message = m, code = ''NETWORK_ERROR'',
                 statusCode = None, validationResult = None\<rparr>)"
| "catch_error (PGError e) = PGError e"

text \<open>The error with which \<open>fetch\<close> rejects once \<open>controller.abort()\<close> has run.\<close>

definition abort_error :: thrown where
  "abort_error = JSError ''AbortError'' ''This operation was aborted''"

text \<open>
  \<^verbatim>\<open>
  private async request<T>(path, options = {}): Promise<T> {
    const url = `${this.config.baseUrl}${path}`;
    const controller = new AbortController();
    const timeout = setTimeout(() => controller.abort(), this.config.timeout);
    try {
      const response = await fetch(url, {
        method: options.method || 'GET',
        headers: { 'Content-Type': 'application/json', 'X-API-Key': this.config.apiKey },
        body: options.body ? JSON.stringify(options.body) : undefined,
        signal: controller.signal,
      });
      ...
    } catch (error: any) { ... } finally { clearTimeout(timeout); }
  }
  \<close>
  The timer is armed before \<open>fetch\<close> is called. When the network has not settled the call
  before the timer's delay has passed, the timer fires, \<open>controller.abort()\<close> runs and the
  pending \<open>await\<close> throws the abort error. The \<open>finally\<close> block runs on every path.
\<close>

definition fetch_call :: "ProofGate \<Rightarrow> string \<Rightarrow> options \<Rightarrow> http_request" where
  "fetch_call self path opts =
     \<lparr>url = ToString (str_val (this_baseUrl (config self))) @ path,
      http_method = method_or_GET (opt_method opts),
      headers = [(''Content-Type'', ''application/json''),
                 (''X-API-Key'', this_apiKey (config self))],
      body = body_or_undefined (opt_body opts)\<rparr>"

definition request ::
  "transport \<Rightarrow> ProofGate \<Rightarrow> string \<Rightarrow> options \<Rightarrow> world \<Rightarrow> (thrown + jsval) \<times> world" where
  "request net self path opts w =
     (let (t, w1) = setTimeout (this_timeout (config self)) w;
          delay = timer_delay (this_timeout (config self));
          call = fetch_call self path opts;
          w2 = w1\<lparr>issued := issued w1 @ [call]\<rparr>;
          (tried, w3) =
            (case net (length (issued w1)) call of
               Never \<Rightarrow> (Inl abort_error, timer_fires t w2)
             | After ms r \<Rightarrow>
                 if delay \<le> ms then (Inl abort_error, timer_fires t w2)
                 else (case r of
                         Rejects n m \<Rightarrow> (Inl (JSError n m), w2)
                       | Resolves response \<Rightarrow> (on_response response, w2)));
          result = (case tried of Inl e \<Rightarrow> Inl (catch_error e) | Inr data \<Rightarrow> Inr data)
      in (result, clearTimeout t w3))"

section \<open>The public operations\<close>

text \<open>
  \<^verbatim>\<open>
  async validate(request: ValidateRequest): Promise<ValidateResponse> {
    const response = await this.request<ValidateResponse>('/validate', {
      method: 'POST',
      body: {
        from: request.from, to: request.to, data: request.data,
        value: request.value || '0',
        guardrailId: request.guardrailId || this.config.guardrailId,
        chainId: request.chainId || this.config.chainId,
      },
    });
    return response;
  }
  \<close>
\<close>

definition validate_body :: "ProofGate \<Rightarrow> ValidateRequest \<Rightarrow> jsval" where
  "validate_body self r =
     JObj [(''from'', JStr (req_from r)),
           (''to'', JStr (req_to r)),
           (''data'', JStr (req_data r)),
           (''value'', js_or (str_val (req_value r)) (JStr ''0'')),
           (''guardrailId'',
              js_or (str_val (req_guardrailId r)) (str_val (this_guardrailId (config self)))),
           (''chainId'', js_or (num_val (req_chainId r)) (num_val (this_chainId (config self))))]"

definition validate ::
  "transport \<Rightarrow> ProofGate \<Rightarrow> ValidateRequest \<Rightarrow> world \<Rightarrow> (thrown + jsval) \<times> world" where
  "validate net self r w =
     request net self ''/validate''
       \<lparr>opt_method = Some ''POST'', opt_body = Some (validate_body self r)\<rparr> w"

text \<open>
  \<^verbatim>\<open>
  async validateOrThrow(request: ValidateRequest): Promise<ValidateResponse> {
    const result = await this.validate(request);
    if (!result.safe) {
      throw new ProofGateError(result.reason, 'VALIDATION_FAILED', undefined, result);
    }
    return result;
  }
  \<close>
\<close>

definition validateOrThrow ::
  "transport \<Rightarrow> ProofGate \<Rightarrow> ValidateRequest \<Rightarrow> world \<Rightarrow> (thrown + jsval) \<times> world" where
  "validateOrThrow net self r w =
     (case validate net self r w of
        (Inl e, w') \<Rightarrow> (Inl e, w')
      | (Inr result, w') \<Rightarrow>
          (case get_prop result ''safe'' of
             Inl e \<Rightarrow> (Inl e, w')
           | Inr s \<Rightarrow>
               if \<not> truthy s then
                 (case get_prop result ''reason'' of
                    Inl e \<Rightarrow> (Inl e, w')
                  | Inr reason \<Rightarrow>
                      (Inl (new_ProofGateError reason ''VALIDATION_FAILED'' None (Some result)),
                       w'))
               else (Inr result, w')))"

text \<open>
  \<^verbatim>\<open>
  async checkAgent(wallet)      { return this.request(`/agents/check?wallet=${wallet}`); }
  async getEvidence(validationId) { return this.request(`/evidence/${validationId}`); }
  async getUsage(wallet)        { return this.request(`/validate?wallet=${wallet}`); }
  \<close>
\<close>

definition checkAgent ::
  "transport \<Rightarrow> ProofGate \<Rightarrow> string \<Rightarrow> world \<Rightarrow> (thrown + jsval) \<times> world" where
  "checkAgent net self wallet w =
     request net self (''/agents/check?wallet='' @ wallet) no_options w"

definition getEvidence ::
  "transport \<Rightarrow> ProofGate \<Rightarrow> string \<Rightarrow> world \<Rightarrow> (thrown + jsval) \<times> world" where
  "getEvidence net self validationId w =
     request net self (''/evidence/'' @ validationId) no_options w"

definition getUsage ::
  "transport \<Rightarrow> ProofGate \<Rightarrow> string \<Rightarrow> world \<Rightarrow> (thrown + jsval) \<times> world" where
  "getUsage net self wallet w =
     request net self (''/validate?wallet='' @ wallet) no_options w"

text \<open>Every public operation of the client, to state a property of all of them at once.\<close>

datatype operation =
    Validate ValidateRequest
  | ValidateOrThrow ValidateRequest
  | CheckAgent string
  | GetEvidence string
  | GetUsage string

fun run :: "transport \<Rightarrow> ProofGate \<Rightarrow> operation \<Rightarrow> world \<Rightarrow> (thrown + jsval) \<times> world" where
  "run net self (Validate r) w = validate net self r w"
| "run net self (ValidateOrThrow r) w = validateOrThrow net self r w"
| "run net self (CheckAgent wallet) w = checkAgent net self wallet w"
| "run net self (GetEvidence validationId) w = getEvidence net self validationId w"
| "run net self (GetUsage wallet) w = getUsage net self wallet w"

text \<open>The call of \<open>fetch\<close> that an operation makes.\<close>

fun call_of :: "ProofGate \<Rightarrow> operation \<Rightarrow> http_request" where
  "call_of self (Validate r) =
     fetch_call self ''/validate''
       \<lparr>opt_method = Some ''POST'', opt_body = Some (validate_body self r)\<rparr>"
| "call_of self (ValidateOrThrow r) =
     fetch_call self ''/validate''
       \<lparr>opt_method = Some ''POST'', opt_body = Some (validate_body self r)\<rparr>"
| "call_of self (CheckAgent wallet) =
     fetch_call self (''/agents/check?wallet='' @ wallet) no_options"
| "call_of self (GetEvidence validationId) =
     fetch_call self (''/evidence/'' @ validationId) no_options"
| "call_of self (GetUsage wallet) =
     fetch_call self (''/validate?wallet='' @ wallet) no_options"

text \<open>A field of the JSON body of the last call of \<open>fetch\<close>, and the names of its fields.\<close>

definition transmitted :: "world \<Rightarrow> string \<Rightarrow> jsval option" where
  "transmitted w k =
     (case body (last (issued w)) of Some (JObj kvs) \<Rightarrow> map_of kvs k | _ \<Rightarrow> None)"

definition transmitted_fields :: "world \<Rightarrow> string list" where
  "transmitted_fields w =
     (case body (last (issued w)) of Some (JObj kvs) \<Rightarrow> map fst kvs | _ \<Rightarrow> [])"

section \<open>Calls on objects that the caller owns\<close>

text \<open>
  JavaScript passes objects by reference: \<open>new ProofGate(config)\<close> and \<open>pg.validate(request)\<close>
  receive the address of an object of the caller's, and an assignment to a property of
  that object would be seen by the caller. The operations on the heap are reading the
  object at an address, creating an empty object at a new address, and setting a property
  of the object at an address (the value of a property that exists is replaced where it
  stands, a new property is added at the end).
\<close>

definition get_object :: "world \<Rightarrow> nat \<Rightarrow> (string \<times> jsval) list option" where
  "get_object w a = map_of (objects w) a"

definition fresh_addr :: "(nat \<times> (string \<times> jsval) list) list \<Rightarrow> nat" where
  "fresh_addr h = Suc (fold max (map fst h) 0)"

definition new_object :: "world \<Rightarrow> nat \<times> world" where
  "new_object w = (let r = fresh_addr (objects w) in (r, w\<lparr>objects := objects w @ [(r, [])]\<rparr>))"

fun put_prop :: "(string \<times> jsval) list \<Rightarrow> string \<Rightarrow> jsval \<Rightarrow> (string \<times> jsval) list" where
  "put_prop [] k v = [(k, v)]"
| "put_prop ((k', v') # kvs) k v =
     (if k' = k then (k, v) # kvs else (k', v') # put_prop kvs k v)"

definition set_prop :: "nat \<Rightarrow> string \<Rightarrow> jsval \<Rightarrow> world \<Rightarrow> world" where
  "set_prop a k v w =
     w\<lparr>objects := map (\<lambda>(b, kvs). if b = a then (b, put_prop kvs k v) else (b, kvs)) (objects w)\<rparr>"

text \<open>The spread \<open>...source\<close> inside an object literal: each own property of the source is
  set on the object under construction, in the source's order.\<close>

fun copy_props :: "nat \<Rightarrow> (string \<times> jsval) list \<Rightarrow> world \<Rightarrow> world" where
  "copy_props a [] w = w"
| "copy_props a ((k, v) # kvs) w = copy_props a kvs (set_prop a k v w)"

text \<open>TypeScript rules out a call with something that is not an object, and an API key
  that is not a string; at run time both end in a \<open>TypeError\<close>.\<close>

definition not_an_object :: thrown where
  "not_an_object = JSError ''TypeError'' ''Cannot read properties of undefined''"

definition not_a_function :: thrown where
  "not_a_function = JSError ''TypeError'' ''config.apiKey.startsWith is not a function''"

text \<open>
  The constructor (source lines 227 to 248) as it works on the heap. \<open>config\<close> is the
  address of the caller's object. The object literal assigned to \<open>this.config\<close> is a new
  object, which gets the three defaults and then the properties of \<open>config\<close>; the result is
  its address.
\<close>

definition constructor_at :: "world \<Rightarrow> nat \<Rightarrow> (thrown + nat) \<times> world" where
  "constructor_at w config_ref =
     (case get_object w config_ref of
        None \<Rightarrow> (Inl not_an_object, w)
      | Some props \<Rightarrow>
          if \<not> truthy (own_prop props ''apiKey'') then (Inl missing_api_key, w)
          else (case own_prop props ''apiKey'' of
                  JStr k \<Rightarrow>
                    if \<not> startsWith k ''pg_'' then (Inl invalid_api_key, w)
                    else
                      (let (this_config_ref, w1) = new_object w;
                           w2 = set_prop this_config_ref ''baseUrl'' (JStr default_baseUrl) w1;
                           w3 = set_prop this_config_ref ''chainId'' (JNum 56) w2;
                           w4 = set_prop this_config_ref ''timeout'' (JNum 30000) w3;
                           w5 = copy_props this_config_ref props w4
                       in (Inr this_config_ref, w5))
                | _ \<Rightarrow> (Inl not_a_function, w)))"

text \<open>
  \<open>validate\<close> (source lines 274 to 288) as it works on the heap. \<open>request\<close> is the address of
  the caller's object. The body is a new object, which gets its six properties from reads
  of the request and of the client's configuration; the shared routine reads it back to
  serialise it. The options object that carries the method and the body is not modelled,
  and the client's own configuration is held by value, as in \<open>validate\<close>.
\<close>

definition validate_at ::
  "transport \<Rightarrow> ProofGate \<Rightarrow> nat \<Rightarrow> world \<Rightarrow> (thrown + jsval) \<times> world" where
  "validate_at net self request_ref w =
     (case get_object w request_ref of
        None \<Rightarrow> (Inl not_an_object, w)
      | Some props \<Rightarrow>
          (let (body_ref, w1) = new_object w;
               w2 = set_prop body_ref ''from'' (own_prop props ''from'') w1;
               w3 = set_prop body_ref ''to'' (own_prop props ''to'') w2;
               w4 = set_prop body_ref ''data'' (own_prop props ''data'') w3;
               w5 = set_prop body_ref ''value'' (js_or (own_prop props ''value'') (JStr ''0'')) w4;
               w6 = set_prop body_ref ''guardrailId''
                      (js_or (own_prop props ''guardrailId'')
                         (str_val (this_guardrailId (config self)))) w5;
               w7 = set_prop body_ref ''chainId''
                      (js_or (own_prop props ''chainId'')
                         (num_val (this_chainId (config self)))) w6
           in case get_object w7 body_ref of
                None \<Rightarrow> (Inl not_an_object, w7)
              | Some body_props \<Rightarrow>
                  request net self ''/validate''
                    \<lparr>opt_method = Some ''POST'', opt_body = Some (JObj body_props)\<rparr> w7))"

text \<open>
  An object of the caller's that is a \<open>ProofGateConfig\<close>, and one that is a
  \<open>ValidateRequest\<close>: its keys are distinct and its properties are those of the typed value,
  an absent key having no property. The object may have other properties, in any order.
\<close>

fun key_is :: "(string \<times> jsval) list \<Rightarrow> string \<Rightarrow> ('a \<Rightarrow> jsval) \<Rightarrow> 'a optkey \<Rightarrow> bool" where
  "key_is props k f Absent = (map_of props k = None)"
| "key_is props k f Undefined = (map_of props k = Some JUndefined)"
| "key_is props k f (Value v) = (map_of props k = Some (f v))"

definition is_config :: "(string \<times> jsval) list \<Rightarrow> ProofGateConfig \<Rightarrow> bool" where
  "is_config props cfg =
     (distinct (map fst props)
      \<and> key_is props ''apiKey'' JStr (apiKey cfg)
      \<and> key_is props ''baseUrl'' JStr (baseUrl cfg)
      \<and> key_is props ''chainId'' JNum (chainId cfg)
      \<and> key_is props ''guardrailId'' JStr (guardrailId cfg)
      \<and> key_is props ''timeout'' JNum (timeout cfg))"

definition is_request :: "(string \<times> jsval) list \<Rightarrow> ValidateRequest \<Rightarrow> bool" where
  "is_request props r =
     (distinct (map fst props)
      \<and> own_prop props ''from'' = JStr (req_from r)
      \<and> own_prop props ''to'' = JStr (req_to r)
      \<and> own_prop props ''data'' = JStr (req_data r)
      \<and> own_prop props ''value'' = str_val (req_value r)
      \<and> own_prop props ''guardrailId'' = str_val (req_guardrailId r)
      \<and> own_prop props ''chainId'' = num_val (req_chainId r))"

text \<open>The object \<open>this.config\<close> on the heap holds what the typed value \<open>this_config\<close> holds.\<close>

definition holds_config :: "(string \<times> jsval) list \<Rightarrow> this_config \<Rightarrow> bool" where
  "holds_config props c =
     (own_prop props ''apiKey'' = JStr (this_apiKey c)
      \<and> own_prop props ''baseUrl'' = str_val (this_baseUrl c)
      \<and> own_prop props ''chainId'' = num_val (this_chainId c)
      \<and> own_prop props ''guardrailId'' = str_val (this_guardrailId c)
      \<and> own_prop props ''timeout'' = num_val (this_timeout c))"

section \<open>The receiving server\<close>

text \<open>
  What a server that routes \<open>/evidence/<id>\<close> and \<open>/agents/check?wallet=<addr>\<close> takes as
  the id and the wallet: the path segment ends at the next \<open>/\<close>, \<open>?\<close> or \<open>#\<close>, the query
  parameter at the next \<open>&\<close> or \<open>#\<close>, and percent escapes are decoded.
\<close>

definition hex_val :: "char \<Rightarrow> nat option" where
  "hex_val c =
     (let n = (of_char c :: nat) in
      if 48 \<le> n \<and> n \<le> 57 then Some (n - 48)
      else if 65 \<le> n \<and> n \<le> 70 then Some (n - 55)
      else if 97 \<le> n \<and> n \<le> 102 then Some (n - 87)
      else None)"

fun percent_decode :: "string \<Rightarrow> string" where
  "percent_decode [] = []"
| "percent_decode (c # cs) =
     (if c = CHR ''%'' then
        (case cs of
           h # l # rest \<Rightarrow>
             (case (hex_val h, hex_val l) of
                (Some a, Some b) \<Rightarrow> char_of (16 * a + b) # percent_decode rest
              | _ \<Rightarrow> c # percent_decode cs)
         | _ \<Rightarrow> c # percent_decode cs)
      else c # percent_decode cs)"

definition ends_segment :: "char \<Rightarrow> bool" where
  "ends_segment c = (c = CHR ''/'' \<or> c = CHR ''?'' \<or> c = CHR ''#'')"

definition ends_parameter :: "char \<Rightarrow> bool" where
  "ends_parameter c = (c = CHR ''&'' \<or> c = CHR ''#'')"

definition received_evidence_id :: "string \<Rightarrow> string \<Rightarrow> string" where
  "received_evidence_id base u =
     percent_decode (takeWhile (\<lambda>c. \<not> ends_segment c) (drop (length (base @ ''/evidence/'')) u))"

definition received_wallet :: "string \<Rightarrow> string \<Rightarrow> string" where
  "received_wallet base u =
     percent_decode
       (takeWhile (\<lambda>c. \<not> ends_parameter c) (drop (length (base @ ''/agents/check?wallet='')) u))"

text \<open>Letters, digits, \<open>-\<close> and \<open>_\<close>: characters that mean nothing to a URL parser.\<close>

definition url_safe :: "char \<Rightarrow> bool" where
  "url_safe c =
     (let n = (of_char c :: nat) in
      (48 \<le> n \<and> n \<le> 57) \<or> (65 \<le> n \<and> n \<le> 90) \<or> (97 \<le> n \<and> n \<le> 122) \<or> n = 45 \<or> n = 95)"

section \<open>Example inputs\<close>

text \<open>The inputs of the repository's manual test and README: a client built from a key
  alone, one built with overrides, a request with the optional fields left out, and mocked
  networks.\<close>

definition empty_world :: world where
  "empty_world = \<lparr>issued = [], timers = [], objects = []\<rparr>"

definition key_only :: "string optkey \<Rightarrow> ProofGateConfig" where
  "key_only k =
     \<lparr>apiKey = k, baseUrl = Absent, chainId = Absent, guardrailId = Absent, timeout = Absent\<rparr>"

definition example_client :: ProofGate where
  "example_client =
     \<lparr>config = \<lparr>this_apiKey = ''pg_test_key'',
                this_baseUrl = Some ''https://www.proofgate.xyz/api'',
                this_chainId = Some 56,
                this_guardrailId = None,
                this_timeout = Some 30000\<rparr>\<rparr>"

definition override_config :: ProofGateConfig where
  "override_config =
     \<lparr>apiKey = Value ''pg_live_xxx'', baseUrl = Absent, chainId = Value 8453,
      guardrailId = Value ''gr_1'', timeout = Absent\<rparr>"

definition override_client :: ProofGate where
  "override_client =
     \<lparr>config = \<lparr>this_apiKey = ''pg_live_xxx'',
                this_baseUrl = Some ''https://www.proofgate.xyz/api'',
                this_chainId = Some 8453,
                this_guardrailId = Some ''gr_1'',
                this_timeout = Some 30000\<rparr>\<rparr>"

definition undefined_config :: ProofGateConfig where
  "undefined_config =
     \<lparr>apiKey = Value ''pg_test_key'', baseUrl = Undefined, chainId = Undefined,
      guardrailId = Absent, timeout = Undefined\<rparr>"

definition example_request :: ValidateRequest where
  "example_request =
     \<lparr>req_from = ''0x1234567890123456789012345678901234567890'',
      req_to = ''0xabcdefabcdefabcdefabcdefabcdefabcdefabcd'',
      req_data = ''0xa9059cbb'',
      req_value = None, req_guardrailId = None, req_chainId = None\<rparr>"

definition falsy_request :: ValidateRequest where
  "falsy_request =
     \<lparr>req_from = ''0x1234567890123456789012345678901234567890'',
      req_to = ''0xabcdefabcdefabcdefabcdefabcdefabcdefabcd'',
      req_data = ''0xa9059cbb'',
      req_value = Some [], req_guardrailId = Some [], req_chainId = Some 0\<rparr>"

definition mock :: "nat \<Rightarrow> fetch_result \<Rightarrow> transport" where
  "mock ms r = (\<lambda>n call. After ms r)"

definition never_responds :: transport where
  "never_responds = (\<lambda>n call. Never)"

definition full_config :: ProofGateConfig where
  "full_config =
     \<lparr>apiKey = Value ''pg_live_xxx'', baseUrl = Value ''https://staging.proofgate.xyz/api'',
      chainId = Value 8453, guardrailId = Value ''gr_1'', timeout = Value 5000\<rparr>"

definition full_client :: ProofGate where
  "full_client =
     \<lparr>config = \<lparr>this_apiKey = ''pg_live_xxx'',
                this_baseUrl = Some ''https://staging.proofgate.xyz/api'',
                this_chainId = Some 8453,
                this_guardrailId = Some ''gr_1'',
                this_timeout = Some 5000\<rparr>\<rparr>"

definition override_props :: "(string \<times> jsval) list" where
  "override_props =
     [(''apiKey'', JStr ''pg_live_xxx''), (''chainId'', JNum 8453), (''guardrailId'', JStr ''gr_1'')]"

definition request_props :: "(string \<times> jsval) list" where
  "request_props =
     [(''from'', JStr ''0x1234567890123456789012345678901234567890''),
      (''to'', JStr ''0xabcdefabcdefabcdefabcdefabcdefabcdefabcd''),
      (''data'', JStr ''0xa9059cbb'')]"

definition caller_world :: world where
  "caller_world =
     \<lparr>issued = [], timers = [], objects = [(1, override_props), (2, request_props)]\<rparr>"

definition null_body :: http_response where
  "null_body = \<lparr>ok = False, status = 500, json = Json JNull\<rparr>"

definition unconvertible :: http_response where
  "unconvertible =
     \<lparr>ok = False, status = 500, json = Json (JObj [(''error'', JObj [(''toString'', JNum 1)])])\<rparr>"

definition unavailable :: http_response where
  "unavailable = \<lparr>ok = False, status = 503, json = Json (JStr ''Service Unavailable'')\<rparr>"

definition rate_limited :: http_response where
  "rate_limited =
     \<lparr>ok = False, status = 429, json = Json (JObj [(''error'', JStr ''rate limited'')])\<rparr>"

definition bad_gateway :: http_response where
  "bad_gateway =
     \<lparr>ok = False, status = 502,
      json = BodyFails ''SyntaxError'' ''Unexpected token < in JSON at position 0''\<rparr>"

definition empty_error :: http_response where
  "empty_error = \<lparr>ok = False, status = 500, json = Json (JObj [(''error'', JStr [])])\<rparr>"

definition unsafe_fields :: "(string \<times> jsval) list" where
  "unsafe_fields =
     [(''validationId'', JStr ''val_abc123''), (''result'', JStr ''FAIL''),
      (''reason'', JStr ''Infinite approval detected''), (''safe'', JBool False)]"

definition unsafe_response :: http_response where
  "unsafe_response = \<lparr>ok = True, status = 200, json = Json (JObj unsafe_fields)\<rparr>"

definition safe_fields :: "(string \<times> jsval) list" where
  "safe_fields =
     [(''validationId'', JStr ''val_abc124''), (''result'', JStr ''PASS''),
      (''reason'', JStr ''Transaction approved''), (''safe'', JBool True)]"

definition safe_response :: http_response where
  "safe_response = \<lparr>ok = True, status = 200, json = Json (JObj safe_fields)\<rparr>"

section \<open>Facts about the shared request routine\<close>

text \<open>A fresh timer handle is above every armed one, so disarming it leaves the timers
  that were armed before the call.\<close>

lemma fold_max_ge: "(a::nat) \<le> fold max xs a"
  by (induction xs arbitrary: a) (auto intro: order_trans [OF max.cobounded2])

lemma fold_max_mem: "x \<in> set xs \<Longrightarrow> x \<le> fold max xs (a::nat)"
proof (induction xs arbitrary: a)
  case Nil
  then show ?case by simp
next
  case (Cons y ys)
  show ?case
  proof (cases "x = y")
    case True
    have "y \<le> max y a" by simp
    also have "\<dots> \<le> fold max ys (max y a)" by (rule fold_max_ge)
    finally show ?thesis using True by simp
  next
    case False
    with Cons.prems have "x \<in> set ys" by simp
    then show ?thesis using Cons.IH by simp
  qed
qed

lemma fresh_timer_unused: "p \<in> set ts \<Longrightarrow> fst p \<noteq> fresh_timer ts"
proof -
  assume "p \<in> set ts"
  then have "fst p \<in> set (map fst ts)" by simp
  then have "fst p \<le> fold max (map fst ts) 0" by (rule fold_max_mem)
  then show ?thesis by (simp add: fresh_timer_def)
qed

lemma filter_fresh_timer: "filter (\<lambda>p. fst p \<noteq> fresh_timer ts) ts = ts"
  by (rule filter_True) (simp add: fresh_timer_unused)

lemma request_world:
  "snd (request net self path opts w) = w\<lparr>issued := issued w @ [fetch_call self path opts]\<rparr>"
  by (simp add: request_def setTimeout_def clearTimeout_def timer_fires_def Let_def
      filter_fresh_timer split: reply.split fetch_result.split prod.split)

lemma request_result:
  "fst (request net self path opts w) =
     (case net (length (issued w)) (fetch_call self path opts) of
        Never \<Rightarrow> Inl request_timeout
      | After ms r \<Rightarrow>
          if timer_delay (this_timeout (config self)) \<le> ms then Inl request_timeout
          else (case r of
                  Rejects n m \<Rightarrow> Inl (catch_error (JSError n m))
                | Resolves response \<Rightarrow>
                    (case on_response response of
                       Inl e \<Rightarrow> Inl (catch_error e)
                     | Inr data \<Rightarrow> Inr data)))"
  by (simp add: request_def setTimeout_def Let_def abort_error_def
      split: reply.split fetch_result.split prod.split sum.split)

lemma validateOrThrow_world:
  "snd (validateOrThrow net self r w) = snd (validate net self r w)"
  by (simp add: validateOrThrow_def split: prod.split sum.split)

lemma run_world: "snd (run net self op w) = w\<lparr>issued := issued w @ [call_of self op]\<rparr>"
  by (cases op)
     (simp_all add: validateOrThrow_world validate_def checkAgent_def getEvidence_def
        getUsage_def request_world)

lemma validateOrThrow_error:
  "fst (validate net self r w) = Inl e \<Longrightarrow> fst (validateOrThrow net self r w) = Inl e"
  by (cases "validate net self r w") (simp add: validateOrThrow_def)

text \<open>The first component of an operation, when the underlying request fails.\<close>

lemma run_fails:
  assumes "\<And>path opts. call_of self op = fetch_call self path opts \<Longrightarrow>
             fst (request net self path opts w) = Inl e"
  shows "fst (run net self op w) = Inl e"
proof (cases op)
  case (Validate r)
  then show ?thesis using assms [of "''/validate''"] by (simp add: validate_def)
next
  case (ValidateOrThrow r)
  then have "fst (validate net self r w) = Inl e"
    using assms [of "''/validate''"] by (simp add: validate_def)
  then show ?thesis using ValidateOrThrow by (simp add: validateOrThrow_error)
next
  case (CheckAgent a)
  then show ?thesis using assms by (simp add: checkAgent_def)
next
  case (GetEvidence i)
  then show ?thesis using assms by (simp add: getEvidence_def)
next
  case (GetUsage a)
  then show ?thesis using assms by (simp add: getUsage_def)
qed


section \<open>Construction: the API key\<close>

lemma key_only_fields:
  "apiKey (key_only k) = k" "baseUrl (key_only k) = Absent" "chainId (key_only k) = Absent"
  "guardrailId (key_only k) = Absent" "timeout (key_only k) = Absent"
  by (simp_all add: key_only_def)

lemma undefined_config_fields:
  "baseUrl undefined_config = Undefined" "chainId undefined_config = Undefined"
  "timeout undefined_config = Undefined"
  by (simp_all add: undefined_config_def)

lemma constructor_example: "constructor (key_only (Value ''pg_test_key'')) = Inr example_client"
  by (simp add: constructor_def key_only_def example_client_def startsWith_def default_baseUrl_def)

text \<open>
  Claim C2, as stated, names the error codes \<open>MISSING_CREDENTIAL\<close> and
  \<open>INVALID_CREDENTIAL\<close>. The constructor throws the codes \<open>MISSING_API_KEY\<close> and
  \<open>INVALID_API_KEY\<close>, here on the two keys of the repository's manual test (the empty key
  and \<open>invalid_key\<close>).
\<close>

theorem constructor_code_counterexample:
  "error_code (constructor (key_only (Value []))) = Some ''MISSING_API_KEY''
   \<and> error_code (constructor (key_only (Value []))) \<noteq> Some ''MISSING_CREDENTIAL''
   \<and> error_code (constructor (key_only (Value ''invalid_key''))) = Some ''INVALID_API_KEY''
   \<and> error_code (constructor (key_only (Value ''invalid_key''))) \<noteq> Some ''INVALID_CREDENTIAL''"
  by (simp add: constructor_def key_only_def missing_api_key_def invalid_api_key_def
      startsWith_def)

text \<open>
  Claim C2, amended. A configuration whose API key is absent, \<open>undefined\<close> or empty is
  rejected by the constructor itself with the code \<open>MISSING_API_KEY\<close>; one whose key is not
  empty and does not start with \<open>pg_\<close> is rejected with the code \<open>INVALID_API_KEY\<close>; every
  other configuration, that is every one whose key starts with \<open>pg_\<close>, is accepted, and the
  client keeps that key.
\<close>

theorem constructor_api_key_check:
  "(read_key (apiKey cfg) = None \<or> read_key (apiKey cfg) = Some [] \<longrightarrow>
      error_code (constructor cfg) = Some ''MISSING_API_KEY'')
   \<and> (\<forall>k. read_key (apiKey cfg) = Some k \<and> k \<noteq> [] \<and> \<not> startsWith k ''pg_'' \<longrightarrow>
          error_code (constructor cfg) = Some ''INVALID_API_KEY'')
   \<and> (\<forall>k. read_key (apiKey cfg) = Some k \<and> startsWith k ''pg_'' \<longrightarrow>
          (\<exists>pg. constructor cfg = Inr pg \<and> this_apiKey (config pg) = k))"
proof (intro conjI allI impI)
  assume "read_key (apiKey cfg) = None \<or> read_key (apiKey cfg) = Some []"
  then show "error_code (constructor cfg) = Some ''MISSING_API_KEY''"
    by (auto simp: constructor_def missing_api_key_def)
next
  fix k
  assume "read_key (apiKey cfg) = Some k \<and> k \<noteq> [] \<and> \<not> startsWith k ''pg_''"
  then show "error_code (constructor cfg) = Some ''INVALID_API_KEY''"
    by (simp add: constructor_def invalid_api_key_def)
next
  fix k
  assume a: "read_key (apiKey cfg) = Some k \<and> startsWith k ''pg_''"
  then have "k \<noteq> []" by (auto simp: startsWith_def)
  with a show "\<exists>pg. constructor cfg = Inr pg \<and> this_apiKey (config pg) = k"
    by (simp add: constructor_def)
qed

theorem constructor_api_key_check_witness:
  "error_code (constructor (key_only Absent)) = Some ''MISSING_API_KEY''
   \<and> error_code (constructor (key_only (Value []))) = Some ''MISSING_API_KEY''
   \<and> error_code (constructor (key_only (Value ''invalid_key''))) = Some ''INVALID_API_KEY''
   \<and> (\<exists>pg. constructor (key_only (Value ''pg_test_key'')) = Inr pg
            \<and> this_apiKey (config pg) = ''pg_test_key'')"
  using constructor_api_key_check [of "key_only Absent"]
    constructor_api_key_check [of "key_only (Value [])"]
    constructor_api_key_check [of "key_only (Value ''invalid_key'')"]
    constructor_api_key_check [of "key_only (Value ''pg_test_key'')"]
  by (simp add: key_only_def startsWith_def)

section \<open>Construction: the timeout\<close>

text \<open>
  Claim C7, as stated, says that every accepted configuration has a strictly positive
  timeout. The constructor accepts a timeout of 0 and a negative one, and keeps them.
\<close>

theorem constructor_timeout_counterexample:
  "constructor ((key_only (Value ''pg_test_key''))\<lparr>timeout := Value 0\<rparr>) =
     Inr (example_client\<lparr>config := (config example_client)\<lparr>this_timeout := Some 0\<rparr>\<rparr>)
   \<and> constructor ((key_only (Value ''pg_test_key''))\<lparr>timeout := Value (- 5)\<rparr>) =
     Inr (example_client\<lparr>config := (config example_client)\<lparr>this_timeout := Some (- 5)\<rparr>\<rparr>)"
  by (simp add: constructor_def key_only_def example_client_def startsWith_def
      default_baseUrl_def)

lemma timer_delay_bounds: "1 \<le> timer_delay d \<and> int (timer_delay d) \<le> TIMEOUT_MAX"
  by (auto simp: timer_delay_def TIMEOUT_MAX_def split: option.split)

text \<open>
  Claim C7, amended. The constructor does not check the timeout. The merged timeout is
  30000 when the caller's configuration has no timeout key and the caller's own value when
  it has one, so it is strictly positive when the caller leaves it out or supplies a
  positive one. Whatever it is, the timer that a call arms has a delay between
  1 millisecond and \<open>2^31 - 1\<close> milliseconds, so that no call waits for ever.
\<close>

theorem constructor_timeout:
  "constructor cfg = Inr pg \<Longrightarrow>
     (timeout cfg = Absent \<longrightarrow> this_timeout (config pg) = Some 30000)
     \<and> (\<forall>n. timeout cfg = Value n \<longrightarrow> this_timeout (config pg) = Some n)
     \<and> (timeout cfg = Absent \<or> (\<exists>n. timeout cfg = Value n \<and> 0 < n) \<longrightarrow>
          (\<exists>m. this_timeout (config pg) = Some m \<and> 0 < m))
     \<and> 1 \<le> timer_delay (this_timeout (config pg))
     \<and> int (timer_delay (this_timeout (config pg))) \<le> TIMEOUT_MAX"
  using timer_delay_bounds [of "this_timeout (config pg)"]
  by (auto simp: constructor_def split: option.splits if_splits)

lemma constructor_with_timeout:
  "constructor ((key_only (Value ''pg_test_key''))\<lparr>timeout := Value n\<rparr>) =
     Inr (example_client\<lparr>config := (config example_client)\<lparr>this_timeout := Some n\<rparr>\<rparr>)"
  by (simp add: constructor_def key_only_def example_client_def startsWith_def
      default_baseUrl_def)

theorem constructor_timeout_witness:
  "this_timeout (config example_client) = Some 30000
   \<and> (\<exists>m. this_timeout (config example_client) = Some m \<and> 0 < m)
   \<and> 1 \<le> timer_delay (this_timeout (config example_client))
   \<and> this_timeout
        (config (example_client\<lparr>config := (config example_client)\<lparr>this_timeout := Some 5000\<rparr>\<rparr>))
      = Some 5000"
proof -
  note absent = constructor_timeout [OF constructor_example]
  note given = constructor_timeout [OF constructor_with_timeout [of 5000]]
  have a: "timeout (key_only (Value ''pg_test_key'')) = Absent"
    by (simp add: key_only_def)
  have g: "timeout ((key_only (Value ''pg_test_key''))\<lparr>timeout := Value 5000\<rparr>) = Value 5000
           \<and> (0::int) < 5000"
    by simp
  from absent a have "this_timeout (config example_client) = Some 30000"
    by blast
  moreover from absent a have "\<exists>m. this_timeout (config example_client) = Some m \<and> 0 < m"
    by blast
  moreover from absent have "1 \<le> timer_delay (this_timeout (config example_client))"
    by blast
  moreover from given g
  have "this_timeout
        (config (example_client\<lparr>config := (config example_client)\<lparr>this_timeout := Some 5000\<rparr>\<rparr>))
      = Some 5000"
    by blast
  ultimately show ?thesis by blast
qed

section \<open>Construction: keys set to undefined\<close>

text \<open>
  Claim C10. In an accepted configuration a key \<open>baseUrl\<close>, \<open>chainId\<close> or \<open>timeout\<close> that is
  present with the value \<open>undefined\<close> overrides the default: the merged field is
  \<open>undefined\<close>. The default (the production URL, chain 56, 30000 milliseconds) is applied
  when the key is absent, and only then: a key that carries a value gives that value.
\<close>

theorem constructor_undefined_overrides_default:
  "constructor cfg = Inr pg \<Longrightarrow>
     (baseUrl cfg = Undefined \<longrightarrow> this_baseUrl (config pg) = None)
     \<and> (chainId cfg = Undefined \<longrightarrow> this_chainId (config pg) = None)
     \<and> (timeout cfg = Undefined \<longrightarrow> this_timeout (config pg) = None)
     \<and> (baseUrl cfg = Absent \<longrightarrow> this_baseUrl (config pg) = Some ''https://www.proofgate.xyz/api'')
     \<and> (chainId cfg = Absent \<longrightarrow> this_chainId (config pg) = Some 56)
     \<and> (timeout cfg = Absent \<longrightarrow> this_timeout (config pg) = Some 30000)
     \<and> (\<forall>v. baseUrl cfg = Value v \<longrightarrow> this_baseUrl (config pg) = Some v)
     \<and> (\<forall>v. chainId cfg = Value v \<longrightarrow> this_chainId (config pg) = Some v)
     \<and> (\<forall>v. timeout cfg = Value v \<longrightarrow> this_timeout (config pg) = Some v)"
  by (auto simp: constructor_def default_baseUrl_def split: option.splits if_splits)

lemma constructor_undefined_config:
  "constructor undefined_config =
     Inr \<lparr>config = \<lparr>this_apiKey = ''pg_test_key'', this_baseUrl = None, this_chainId = None,
                     this_guardrailId = None, this_timeout = None\<rparr>\<rparr>"
  by (simp add: constructor_def undefined_config_def startsWith_def)

lemma constructor_full_config: "constructor full_config = Inr full_client"
  by (simp add: constructor_def full_config_def full_client_def startsWith_def)

lemma full_config_fields:
  "baseUrl full_config = Value ''https://staging.proofgate.xyz/api''"
  "chainId full_config = Value 8453" "timeout full_config = Value 5000"
  by (simp_all add: full_config_def)

theorem constructor_undefined_overrides_default_witness:
  "(\<exists>pg. constructor undefined_config = Inr pg
      \<and> this_baseUrl (config pg) = None
      \<and> this_chainId (config pg) = None
      \<and> this_timeout (config pg) = None)
   \<and> this_baseUrl (config example_client) = Some ''https://www.proofgate.xyz/api''
   \<and> this_chainId (config example_client) = Some 56
   \<and> this_timeout (config example_client) = Some 30000
   \<and> this_baseUrl (config full_client) = Some ''https://staging.proofgate.xyz/api''
   \<and> this_chainId (config full_client) = Some 8453
   \<and> this_timeout (config full_client) = Some 5000"
  using constructor_undefined_overrides_default [OF constructor_undefined_config]
    constructor_undefined_overrides_default [OF constructor_example]
    constructor_undefined_overrides_default [OF constructor_full_config]
  by (simp add: constructor_undefined_config key_only_fields undefined_config_fields
      full_config_fields)

section \<open>The body that validate transmits\<close>

lemma constructor_override: "constructor override_config = Inr override_client"
  by (simp add: constructor_def override_config_def override_client_def startsWith_def
      default_baseUrl_def)

lemma validate_wire_body:
  "body (call_of self (Validate r)) =
     Some (JObj
       ([(''from'', JStr (req_from r)),
         (''to'', JStr (req_to r)),
         (''data'', JStr (req_data r)),
         (''value'', JStr (case req_value r of
                             None \<Rightarrow> ''0''
                           | Some v \<Rightarrow> if v = [] then ''0'' else v))]
        @ (case (case req_guardrailId r of
                   None \<Rightarrow> this_guardrailId (config self)
                 | Some g \<Rightarrow> if g = [] then this_guardrailId (config self) else Some g) of
             None \<Rightarrow> []
           | Some g \<Rightarrow> [(''guardrailId'', JStr g)])
        @ (case (case req_chainId r of
                   None \<Rightarrow> this_chainId (config self)
                 | Some n \<Rightarrow> if n = 0 then this_chainId (config self) else Some n) of
             None \<Rightarrow> []
           | Some n \<Rightarrow> [(''chainId'', JNum n)])))"
  by (simp add: fetch_call_def body_or_undefined_def validate_body_def js_or_def str_val_def
      num_val_def split: option.split)

lemma validate_issued:
  "issued (snd (validate net self r w)) = issued w @ [call_of self (Validate r)]"
  using run_world [of net self "Validate r" w] by simp

text \<open>
  Claim C3, as stated, says that the transmitted body has exactly six fields. A client
  built from an API key alone has no default guardrail, and for a request that names none
  the property \<open>guardrailId\<close> of the body literal is \<open>undefined\<close>, which \<open>JSON.stringify\<close>
  leaves out: five fields are transmitted.
\<close>

theorem validate_five_fields_counterexample:
  "constructor (key_only (Value ''pg_test_key'')) = Inr example_client
   \<and> transmitted_fields (snd (validate never_responds example_client example_request empty_world))
       = [''from'', ''to'', ''data'', ''value'', ''chainId'']
   \<and> transmitted (snd (validate never_responds example_client example_request empty_world))
       ''guardrailId'' = None"
  by (simp add: constructor_example transmitted_fields_def transmitted_def validate_issued
      validate_wire_body example_request_def example_client_def del: call_of.simps)

text \<open>
  Claim C3, amended. \<open>validate\<close> makes one call, a POST, whose body has the fields \<open>from\<close>,
  \<open>to\<close>, \<open>data\<close> and \<open>value\<close>, then \<open>guardrailId\<close> and \<open>chainId\<close> when their value is defined.
  \<open>from\<close>, \<open>to\<close> and \<open>data\<close> are the request's own strings; \<open>value\<close> is \<open>"0"\<close> when the request
  leaves it out (or gives the empty string); \<open>guardrailId\<close> and \<open>chainId\<close> are the client's
  configured defaults when the request leaves them out (or gives the empty string, or 0),
  and a default that the caller gave at construction is the configured one.
\<close>

theorem validate_transmitted_body:
  "issued (snd (validate net self r w)) = issued w @ [call_of self (Validate r)]
   \<and> http_method (call_of self (Validate r)) = ''POST''
   \<and> body (call_of self (Validate r)) =
       Some (JObj
         ([(''from'', JStr (req_from r)),
           (''to'', JStr (req_to r)),
           (''data'', JStr (req_data r)),
           (''value'', JStr (case req_value r of
                               None \<Rightarrow> ''0''
                             | Some v \<Rightarrow> if v = [] then ''0'' else v))]
          @ (case (case req_guardrailId r of
                     None \<Rightarrow> this_guardrailId (config self)
                   | Some g \<Rightarrow> if g = [] then this_guardrailId (config self) else Some g) of
               None \<Rightarrow> []
             | Some g \<Rightarrow> [(''guardrailId'', JStr g)])
          @ (case (case req_chainId r of
                     None \<Rightarrow> this_chainId (config self)
                   | Some n \<Rightarrow> if n = 0 then this_chainId (config self) else Some n) of
               None \<Rightarrow> []
             | Some n \<Rightarrow> [(''chainId'', JNum n)])))
   \<and> (\<forall>cfg n. constructor cfg = Inr self \<and> chainId cfg = Value n \<longrightarrow>
          this_chainId (config self) = Some n)
   \<and> (\<forall>cfg g. constructor cfg = Inr self \<and> guardrailId cfg = Value g \<longrightarrow>
          this_guardrailId (config self) = Some g)"
proof (intro conjI allI impI)
  show "issued (snd (validate net self r w)) = issued w @ [call_of self (Validate r)]"
    by (rule validate_issued)
  show "http_method (call_of self (Validate r)) = ''POST''"
    by (simp add: fetch_call_def method_or_GET_def js_or_def str_val_def)
next
  fix cfg n
  assume "constructor cfg = Inr self \<and> chainId cfg = Value n"
  then show "this_chainId (config self) = Some n"
    by (auto simp: constructor_def split: option.splits if_splits)
next
  fix cfg g
  assume "constructor cfg = Inr self \<and> guardrailId cfg = Value g"
  then show "this_guardrailId (config self) = Some g"
    by (auto simp: constructor_def split: option.splits if_splits)
qed (rule validate_wire_body)

lemma override_config_fields:
  "chainId override_config = Value 8453" "guardrailId override_config = Value ''gr_1''"
  by (simp_all add: override_config_def)

theorem validate_transmitted_body_witness:
  "this_chainId (config override_client) = Some 8453
   \<and> this_guardrailId (config override_client) = Some ''gr_1''
   \<and> body (call_of override_client (Validate example_request)) =
       Some (JObj [(''from'', JStr ''0x1234567890123456789012345678901234567890''),
                   (''to'', JStr ''0xabcdefabcdefabcdefabcdefabcdefabcdefabcd''),
                   (''data'', JStr ''0xa9059cbb''),
                   (''value'', JStr ''0''),
                   (''guardrailId'', JStr ''gr_1''),
                   (''chainId'', JNum 8453)])"
  using validate_transmitted_body [of never_responds override_client example_request empty_world]
    constructor_override override_config_fields
  by (auto simp add: example_request_def simp del: call_of.simps)

text \<open>
  Claim C9. \<open>validate\<close> treats a falsy field as an omitted one: for a request whose value
  is the empty string the transmitted value is \<open>"0"\<close>; for one whose chain id is 0 the
  transmitted chain id is the client's configured default; for one whose guardrail id is
  the empty string the transmitted guardrail id is the client's configured default.
\<close>

theorem validate_falsy_fields:
  "(req_value r = Some [] \<longrightarrow>
      transmitted (snd (validate net self r w)) ''value'' = Some (JStr ''0''))
   \<and> (req_chainId r = Some 0 \<longrightarrow>
        transmitted (snd (validate net self r w)) ''chainId'' =
          map_option JNum (this_chainId (config self)))
   \<and> (req_guardrailId r = Some [] \<longrightarrow>
        transmitted (snd (validate net self r w)) ''guardrailId'' =
          map_option JStr (this_guardrailId (config self)))"
  by (simp add: transmitted_def validate_issued validate_wire_body del: call_of.simps
      split: option.split)

theorem validate_falsy_fields_witness:
  "transmitted (snd (validate never_responds override_client falsy_request empty_world)) ''value''
     = Some (JStr ''0'')
   \<and> transmitted (snd (validate never_responds override_client falsy_request empty_world))
       ''chainId'' = Some (JNum 8453)
   \<and> transmitted (snd (validate never_responds override_client falsy_request empty_world))
       ''guardrailId'' = Some (JStr ''gr_1'')"
  using validate_falsy_fields [of falsy_request never_responds override_client empty_world]
  by (simp add: falsy_request_def override_client_def)

section \<open>validateOrThrow\<close>

lemma validate_result_ok:
  assumes "net (length (issued w)) (call_of self (Validate r)) = After ms (Resolves resp)"
    and "ms < timer_delay (this_timeout (config self))"
    and "ok resp" and "json resp = Json data"
  shows "fst (validate net self r w) = Inr data"
  using assms by (simp add: validate_def request_result on_response_def)

lemma validateOrThrow_unsafe:
  assumes "fst (validate net self r w) = Inr (JObj kvs)"
    and "own_prop kvs ''safe'' = JBool False"
    and "own_prop kvs ''reason'' = JStr reason"
  shows "fst (validateOrThrow net self r w) =
           Inl (PGError \<lparr>message = reason, code = ''VALIDATION_FAILED'', statusCode = None,
                         validationResult = Some (JObj kvs)\<rparr>)"
  using assms by (cases "validate net self r w") (simp add: validateOrThrow_def new_ProofGateError_def)

lemma validateOrThrow_safe:
  assumes "fst (validate net self r w) = Inr (JObj kvs)"
    and "own_prop kvs ''safe'' = JBool True"
  shows "fst (validateOrThrow net self r w) = Inr (JObj kvs)"
  using assms by (cases "validate net self r w") (simp add: validateOrThrow_def)

text \<open>
  Claim C1. \<open>validateOrThrow\<close> is \<open>validate\<close> followed by a check on the client's side. It
  leaves the world as \<open>validate\<close> does, having made exactly one call of \<open>fetch\<close>, the call of
  \<open>validate\<close>. Whatever successful response the service gives is the result of \<open>validate\<close>;
  when the flag \<open>safe\<close> of that result is false, \<open>validateOrThrow\<close> throws an error with the
  code \<open>VALIDATION_FAILED\<close>, the result's \<open>reason\<close> as its message and the result attached;
  when the flag is true it returns the result unchanged. An error of \<open>validate\<close> is passed on.
\<close>

theorem validateOrThrow_is_validate_then_check:
  "snd (validateOrThrow net self r w) = snd (validate net self r w)
   \<and> issued (snd (validateOrThrow net self r w)) = issued w @ [call_of self (Validate r)]
   \<and> (\<forall>ms resp data.
         net (length (issued w)) (call_of self (Validate r)) = After ms (Resolves resp)
         \<and> ms < timer_delay (this_timeout (config self)) \<and> ok resp \<and> json resp = Json data
         \<longrightarrow> fst (validate net self r w) = Inr data)
   \<and> (\<forall>kvs reason.
         fst (validate net self r w) = Inr (JObj kvs)
         \<and> own_prop kvs ''safe'' = JBool False \<and> own_prop kvs ''reason'' = JStr reason
         \<longrightarrow> fst (validateOrThrow net self r w) =
               Inl (PGError \<lparr>message = reason, code = ''VALIDATION_FAILED'',
                             statusCode = None, validationResult = Some (JObj kvs)\<rparr>))
   \<and> (\<forall>kvs.
         fst (validate net self r w) = Inr (JObj kvs) \<and> own_prop kvs ''safe'' = JBool True
         \<longrightarrow> fst (validateOrThrow net self r w) = Inr (JObj kvs))
   \<and> (\<forall>e. fst (validate net self r w) = Inl e \<longrightarrow> fst (validateOrThrow net self r w) = Inl e)"
proof (intro conjI allI impI)
  show "snd (validateOrThrow net self r w) = snd (validate net self r w)"
    by (rule validateOrThrow_world)
  then show "issued (snd (validateOrThrow net self r w)) = issued w @ [call_of self (Validate r)]"
    by (simp only: validate_issued)
next
  fix ms resp data
  assume "net (length (issued w)) (call_of self (Validate r)) = After ms (Resolves resp)
          \<and> ms < timer_delay (this_timeout (config self)) \<and> ok resp \<and> json resp = Json data"
  then show "fst (validate net self r w) = Inr data"
    by (blast intro: validate_result_ok)
next
  fix kvs reason
  assume "fst (validate net self r w) = Inr (JObj kvs)
          \<and> own_prop kvs ''safe'' = JBool False \<and> own_prop kvs ''reason'' = JStr reason"
  then show "fst (validateOrThrow net self r w) =
               Inl (PGError \<lparr>message = reason, code = ''VALIDATION_FAILED'',
                             statusCode = None, validationResult = Some (JObj kvs)\<rparr>)"
    by (blast intro: validateOrThrow_unsafe)
next
  fix kvs
  assume "fst (validate net self r w) = Inr (JObj kvs) \<and> own_prop kvs ''safe'' = JBool True"
  then show "fst (validateOrThrow net self r w) = Inr (JObj kvs)"
    by (blast intro: validateOrThrow_safe)
next
  fix e
  assume "fst (validate net self r w) = Inl e"
  then show "fst (validateOrThrow net self r w) = Inl e"
    by (rule validateOrThrow_error)
qed

lemma unsafe_fields_props:
  "own_prop unsafe_fields ''safe'' = JBool False"
  "own_prop unsafe_fields ''reason'' = JStr ''Infinite approval detected''"
  by (simp_all add: unsafe_fields_def own_prop_def)

lemma example_delay: "timer_delay (this_timeout (config example_client)) = 30000"
  by (simp add: example_client_def timer_delay_def TIMEOUT_MAX_def)

lemma safe_fields_props: "own_prop safe_fields ''safe'' = JBool True"
  by (simp add: safe_fields_def own_prop_def)

lemma validate_times_out:
  "fst (validate never_responds self r w) = Inl request_timeout"
  by (simp add: validate_def request_result never_responds_def)

theorem validateOrThrow_is_validate_then_check_witness:
  "fst (validateOrThrow (mock 120 (Resolves unsafe_response))
          example_client example_request empty_world) =
     Inl (PGError \<lparr>message = ''Infinite approval detected'', code = ''VALIDATION_FAILED'',
                   statusCode = None, validationResult = Some (JObj unsafe_fields)\<rparr>)
   \<and> issued (snd (validateOrThrow (mock 120 (Resolves unsafe_response))
          example_client example_request empty_world)) =
       [call_of example_client (Validate example_request)]
   \<and> fst (validateOrThrow (mock 120 (Resolves safe_response))
          example_client example_request empty_world) = Inr (JObj safe_fields)
   \<and> fst (validateOrThrow never_responds example_client example_request empty_world) =
       Inl request_timeout"
proof -
  let ?net = "mock 120 (Resolves unsafe_response)"
  let ?good = "mock 120 (Resolves safe_response)"
  note t = validateOrThrow_is_validate_then_check
    [of ?net example_client example_request empty_world]
  note s = validateOrThrow_is_validate_then_check
    [of ?good example_client example_request empty_world]
  note n = validateOrThrow_is_validate_then_check
    [of never_responds example_client example_request empty_world]
  have reply: "?net (length (issued empty_world)) (call_of example_client (Validate example_request))
                 = After 120 (Resolves unsafe_response)
               \<and> 120 < timer_delay (this_timeout (config example_client))
               \<and> ok unsafe_response \<and> json unsafe_response = Json (JObj unsafe_fields)"
    by (simp add: mock_def example_delay unsafe_response_def)
  with t have "fst (validate ?net example_client example_request empty_world)
                 = Inr (JObj unsafe_fields)"
    by blast
  with t unsafe_fields_props
  have "fst (validateOrThrow ?net example_client example_request empty_world) =
          Inl (PGError \<lparr>message = ''Infinite approval detected'', code = ''VALIDATION_FAILED'',
                        statusCode = None, validationResult = Some (JObj unsafe_fields)\<rparr>)"
    by blast
  moreover from t
  have "issued (snd (validateOrThrow ?net example_client example_request empty_world)) =
          issued empty_world @ [call_of example_client (Validate example_request)]"
    by blast
  moreover have "issued empty_world = []"
    by (simp add: empty_world_def)
  moreover
  have "?good (length (issued empty_world)) (call_of example_client (Validate example_request))
                 = After 120 (Resolves safe_response)
               \<and> 120 < timer_delay (this_timeout (config example_client))
               \<and> ok safe_response \<and> json safe_response = Json (JObj safe_fields)"
    by (simp add: mock_def example_delay safe_response_def)
  with s have "fst (validate ?good example_client example_request empty_world)
                 = Inr (JObj safe_fields)"
    by blast
  with s safe_fields_props
  have "fst (validateOrThrow ?good example_client example_request empty_world) =
          Inr (JObj safe_fields)"
    by blast
  moreover from n validate_times_out
  have "fst (validateOrThrow never_responds example_client example_request empty_world) =
          Inl request_timeout"
    by blast
  ultimately show ?thesis by simp
qed

section \<open>Responses with a non-success status\<close>

lemma falsy_converts: "\<not> truthy v \<Longrightarrow> \<not> ToString_throws v"
  by (cases v) simp_all

lemma get_prop_read: "data \<noteq> JNull \<Longrightarrow> data \<noteq> JUndefined \<Longrightarrow> get_prop data k = Inr (read_prop data k)"
  by (cases data) (simp_all add: read_prop_def)

lemma new_ProofGateError_converts:
  "truthy m \<Longrightarrow> \<not> ToString_throws m \<Longrightarrow>
     new_ProofGateError m c st res =
       PGError \<lparr>message = ToString m, code = c, statusCode = st, validationResult = res\<rparr>"
  by (cases m) (simp_all add: new_ProofGateError_def)

lemma on_response_api_error:
  assumes "\<not> ok resp" and "json resp = Json data" and "data \<noteq> JNull" and "data \<noteq> JUndefined"
    and "\<not> ToString_throws (js_or (read_prop data ''error'') (read_prop data ''message''))"
  shows "on_response resp =
           Inl (PGError
             \<lparr>message =
                (if truthy (read_prop data ''error'') then ToString (read_prop data ''error'')
                 else if truthy (read_prop data ''message'')
                   then ToString (read_prop data ''message'')
                 else ''HTTP '' @ ToString (JNum (int (status resp)))),
              code = ''API_ERROR'', statusCode = Some (status resp), validationResult = None\<rparr>)"
proof (cases "truthy (read_prop data ''error'')")
  case True
  with assms show ?thesis
    by (simp add: on_response_def api_error_message_def get_prop_read js_or_def
        new_ProofGateError_converts)
next
  case False
  show ?thesis
  proof (cases "truthy (read_prop data ''message'')")
    case True
    with False assms show ?thesis
      by (simp add: on_response_def api_error_message_def get_prop_read js_or_def
          new_ProofGateError_converts)
  next
    case no: False
    with False assms show ?thesis
      by (simp add: on_response_def api_error_message_def get_prop_read js_or_def
          new_ProofGateError_def)
  qed
qed

lemma rate_limited_fields:
  "\<not> ok rate_limited" "status rate_limited = 429"
  "json rate_limited = Json (JObj [(''error'', JStr ''rate limited'')])"
  by (simp_all add: rate_limited_def)

lemma unavailable_fields:
  "\<not> ok unavailable" "status unavailable = 503"
  "json unavailable = Json (JStr ''Service Unavailable'')"
  by (simp_all add: unavailable_def)

lemma string_of_nat_examples:
  "string_of_nat 500 = ''500''" "string_of_nat 503 = ''503''"
  by code_simp+

lemma status_printed:
  "ToString (JNum (int 500)) = ''500''" "ToString (JNum (int 503)) = ''503''"
  by (simp_all add: Number_toString_def MAX_SAFE_INTEGER_def string_of_int_def
      string_of_nat_examples del: string_of_nat.simps)

text \<open>
  Claim C4, as stated, gives every response with a non-success status the code
  \<open>API_ERROR\<close>, and the body's \<open>error\<close> field as the message whenever that field is present.
  A 502 response whose body is an HTML page, not JSON, makes \<open>response.json()\<close> throw before
  the status is looked at, and the call fails with the code \<open>NETWORK_ERROR\<close> and no status.
  A 500 response whose body is \<open>{"error": ""}\<close> has an \<open>error\<close> field, and the message is
  \<open>HTTP 500\<close>, since \<open>||\<close> passes over an empty string. A 500 response whose body is \<open>null\<close>,
  and one whose \<open>error\<close> field is an object that cannot be converted to a string, make the
  construction of the error throw a \<open>TypeError\<close>, which ends as \<open>NETWORK_ERROR\<close> too.
\<close>

theorem api_error_counterexample:
  "fst (run (mock 80 (Resolves bad_gateway)) example_client
          (GetEvidence ''val_abc123'') empty_world) =
     Inl (PGError \<lparr>message = ''Unexpected token < in JSON at position 0'',
                   code = ''NETWORK_ERROR'', statusCode = None, validationResult = None\<rparr>)
   \<and> fst (run (mock 80 (Resolves empty_error)) example_client
          (GetEvidence ''val_abc123'') empty_world) =
     Inl (PGError \<lparr>message = ''HTTP 500'', code = ''API_ERROR'', statusCode = Some 500,
                   validationResult = None\<rparr>)
   \<and> fst (run (mock 80 (Resolves null_body)) example_client
          (GetEvidence ''val_abc123'') empty_world) =
     Inl (PGError \<lparr>message = ''Cannot read properties of null (reading '' @ [CHR 0x27]
                               @ ''error'' @ [CHR 0x27] @ '')'',
                   code = ''NETWORK_ERROR'', statusCode = None, validationResult = None\<rparr>)
   \<and> fst (run (mock 80 (Resolves unconvertible)) example_client
          (GetEvidence ''val_abc123'') empty_world) =
     Inl (PGError \<lparr>message = ''Cannot convert object to primitive value'',
                   code = ''NETWORK_ERROR'', statusCode = None, validationResult = None\<rparr>)"
  using status_printed(1)
  by (simp add: getEvidence_def request_result mock_def example_delay on_response_def
      bad_gateway_def empty_error_def null_body_def unconvertible_def api_error_message_def
      own_prop_def js_or_def new_ProofGateError_def cannot_read_def cannot_convert_def
      del: string_of_nat.simps ToString.simps(4))

text \<open>
  Claim C4, amended. For every operation, whenever the service answers in time with a
  non-success status and a body that is JSON and not \<open>null\<close> (an object, an array, a
  string, a number or a boolean), the operation fails with the code \<open>API_ERROR\<close> carrying
  that status; the message is the body's \<open>error\<close> field when that is truthy, else its
  \<open>message\<close> field when that is truthy, else \<open>HTTP\<close> followed by the status. The field is the
  message itself when it is a string that is not empty, and its conversion to a string
  otherwise; a field that cannot be converted is left out. A 429 response with the body
  \<open>{"error":"rate limited"}\<close> gives \<open>API_ERROR\<close>, status 429 and the message \<open>rate limited\<close>.
\<close>

theorem api_error_from_json_body:
  assumes "net (length (issued w)) (call_of self op) = After ms (Resolves resp)"
    and "ms < timer_delay (this_timeout (config self))"
    and "\<not> ok resp"
    and "json resp = Json data" and "data \<noteq> JNull" and "data \<noteq> JUndefined"
    and "\<not> ToString_throws (js_or (read_prop data ''error'') (read_prop data ''message''))"
  shows "fst (run net self op w) =
           Inl (PGError
             \<lparr>message =
                (if truthy (read_prop data ''error'') then ToString (read_prop data ''error'')
                 else if truthy (read_prop data ''message'')
                   then ToString (read_prop data ''message'')
                 else ''HTTP '' @ ToString (JNum (int (status resp)))),
              code = ''API_ERROR'', statusCode = Some (status resp), validationResult = None\<rparr>)"
proof (rule run_fails)
  fix path opts
  assume "call_of self op = fetch_call self path opts"
  with assms(1) have "net (length (issued w)) (fetch_call self path opts) = After ms (Resolves resp)"
    by simp
  with assms(2) show "fst (request net self path opts w) =
           Inl (PGError
             \<lparr>message =
                (if truthy (read_prop data ''error'') then ToString (read_prop data ''error'')
                 else if truthy (read_prop data ''message'')
                   then ToString (read_prop data ''message'')
                 else ''HTTP '' @ ToString (JNum (int (status resp)))),
              code = ''API_ERROR'', statusCode = Some (status resp), validationResult = None\<rparr>)"
    by (simp add: request_result
        on_response_api_error [OF assms(3) assms(4) assms(5) assms(6) assms(7)])
qed

theorem api_error_from_json_body_witness:
  "fst (run (mock 80 (Resolves rate_limited)) example_client
          (GetEvidence ''val_abc123'') empty_world) =
     Inl (PGError \<lparr>message = ''rate limited'', code = ''API_ERROR'', statusCode = Some 429,
                   validationResult = None\<rparr>)
   \<and> fst (run (mock 80 (Resolves unavailable)) example_client
          (Validate example_request) empty_world) =
     Inl (PGError \<lparr>message = ''HTTP 503'', code = ''API_ERROR'', statusCode = Some 503,
                   validationResult = None\<rparr>)"
proof -
  have late: "80 < timer_delay (this_timeout (config example_client))"
    by (simp add: example_delay)
  have r1: "mock 80 (Resolves rate_limited) (length (issued empty_world))
          (call_of example_client (GetEvidence ''val_abc123'')) = After 80 (Resolves rate_limited)"
    by (simp add: mock_def)
  have r2: "mock 80 (Resolves unavailable) (length (issued empty_world))
          (call_of example_client (Validate example_request)) = After 80 (Resolves unavailable)"
    by (simp add: mock_def)
  have c1: "\<not> ToString_throws (js_or (read_prop (JObj [(''error'', JStr ''rate limited'')]) ''error'')
                 (read_prop (JObj [(''error'', JStr ''rate limited'')]) ''message''))"
    by (simp add: read_prop_def own_prop_def js_or_def)
  have c2: "\<not> ToString_throws (js_or (read_prop (JStr ''Service Unavailable'') ''error'')
                 (read_prop (JStr ''Service Unavailable'') ''message''))"
    by (simp add: read_prop_def js_or_def)
  have n1: "JObj [(''error'', JStr ''rate limited'')] \<noteq> JNull"
    "JObj [(''error'', JStr ''rate limited'')] \<noteq> JUndefined"
    by simp_all
  have n2: "JStr ''Service Unavailable'' \<noteq> JNull" "JStr ''Service Unavailable'' \<noteq> JUndefined"
    by simp_all
  have "fst (run (mock 80 (Resolves rate_limited)) example_client
          (GetEvidence ''val_abc123'') empty_world) =
     Inl (PGError \<lparr>message = ''rate limited'', code = ''API_ERROR'', statusCode = Some 429,
                   validationResult = None\<rparr>)"
    using api_error_from_json_body
      [where net = "mock 80 (Resolves rate_limited)" and w = empty_world
         and self = example_client and op = "GetEvidence ''val_abc123''",
       OF r1 late rate_limited_fields(1) rate_limited_fields(3) n1 c1]
    by (simp add: rate_limited_fields read_prop_def own_prop_def del: run.simps call_of.simps)
  moreover
  have "fst (run (mock 80 (Resolves unavailable)) example_client
          (Validate example_request) empty_world) =
     Inl (PGError \<lparr>message = ''HTTP 503'', code = ''API_ERROR'', statusCode = Some 503,
                   validationResult = None\<rparr>)"
    using api_error_from_json_body
      [where net = "mock 80 (Resolves unavailable)" and w = empty_world
         and self = example_client and op = "Validate example_request",
       OF r2 late unavailable_fields(1) unavailable_fields(3) n2 c2] status_printed(2)
    by (simp add: unavailable_fields read_prop_def
        del: run.simps call_of.simps ToString.simps(4))
  ultimately show ?thesis by blast
qed

section \<open>Timeouts and the timer\<close>

lemma run_times_out:
  assumes "net (length (issued w)) (call_of self op) = Never
           \<or> (\<exists>ms r. net (length (issued w)) (call_of self op) = After ms r
                     \<and> timer_delay (this_timeout (config self)) \<le> ms)"
  shows "fst (run net self op w) = Inl request_timeout"
proof (rule run_fails)
  fix path opts
  assume "call_of self op = fetch_call self path opts"
  with assms have "net (length (issued w)) (fetch_call self path opts) = Never
           \<or> (\<exists>ms r. net (length (issued w)) (fetch_call self path opts) = After ms r
                     \<and> timer_delay (this_timeout (config self)) \<le> ms)"
    by simp
  then show "fst (request net self path opts w) = Inl request_timeout"
    by (auto simp: request_result)
qed

lemma timer_delay_le_configured:
  "1 \<le> n \<Longrightarrow> n \<le> int ms \<Longrightarrow> timer_delay (Some n) \<le> ms"
  by (auto simp: timer_delay_def)

text \<open>
  Claim C5. For every operation, the timers armed after the call are those armed before
  it, on every path: the timer of the call is disarmed. When nothing ever comes back, and
  when what comes back comes after the delay of that timer has passed, the operation fails
  with the code \<open>TIMEOUT\<close>; for a configured timeout of \<open>n\<close> milliseconds, \<open>n\<close> at least 1,
  that is whenever nothing has come back before \<open>n\<close> milliseconds have passed.
\<close>

theorem timeout_and_timer_disarmed:
  "timers (snd (run net self op w)) = timers w
   \<and> (net (length (issued w)) (call_of self op) = Never
      \<longrightarrow> fst (run net self op w) =
            Inl (PGError \<lparr>message = ''Request timeout'', code = ''TIMEOUT'',
                          statusCode = None, validationResult = None\<rparr>))
   \<and> (\<forall>ms r. net (length (issued w)) (call_of self op) = After ms r
               \<and> timer_delay (this_timeout (config self)) \<le> ms
      \<longrightarrow> fst (run net self op w) =
            Inl (PGError \<lparr>message = ''Request timeout'', code = ''TIMEOUT'',
                          statusCode = None, validationResult = None\<rparr>))
   \<and> (\<forall>n ms r. this_timeout (config self) = Some n \<and> 1 \<le> n
                 \<and> net (length (issued w)) (call_of self op) = After ms r \<and> n \<le> int ms
      \<longrightarrow> fst (run net self op w) =
            Inl (PGError \<lparr>message = ''Request timeout'', code = ''TIMEOUT'',
                          statusCode = None, validationResult = None\<rparr>))"
proof (intro conjI allI impI)
  show "timers (snd (run net self op w)) = timers w"
    by (simp add: run_world)
next
  assume "net (length (issued w)) (call_of self op) = Never"
  then have "fst (run net self op w) = Inl request_timeout"
    by (simp add: run_times_out)
  then show "fst (run net self op w) =
            Inl (PGError \<lparr>message = ''Request timeout'', code = ''TIMEOUT'',
                          statusCode = None, validationResult = None\<rparr>)"
    by (simp add: request_timeout_def)
next
  fix ms r
  assume "net (length (issued w)) (call_of self op) = After ms r
          \<and> timer_delay (this_timeout (config self)) \<le> ms"
  then have "fst (run net self op w) = Inl request_timeout"
    by (blast intro: run_times_out)
  then show "fst (run net self op w) =
            Inl (PGError \<lparr>message = ''Request timeout'', code = ''TIMEOUT'',
                          statusCode = None, validationResult = None\<rparr>)"
    by (simp add: request_timeout_def)
next
  fix n ms r
  assume a: "this_timeout (config self) = Some n \<and> 1 \<le> n
             \<and> net (length (issued w)) (call_of self op) = After ms r \<and> n \<le> int ms"
  then have "timer_delay (this_timeout (config self)) \<le> ms"
    by (simp add: timer_delay_le_configured)
  with a have "fst (run net self op w) = Inl request_timeout"
    by (blast intro: run_times_out)
  then show "fst (run net self op w) =
            Inl (PGError \<lparr>message = ''Request timeout'', code = ''TIMEOUT'',
                          statusCode = None, validationResult = None\<rparr>)"
    by (simp add: request_timeout_def)
qed

theorem timeout_and_timer_disarmed_witness:
  "fst (run never_responds example_client (CheckAgent ''0x1234567890123456789012345678901234567890'')
          empty_world) =
     Inl (PGError \<lparr>message = ''Request timeout'', code = ''TIMEOUT'',
                   statusCode = None, validationResult = None\<rparr>)
   \<and> timers (snd (run never_responds example_client
          (CheckAgent ''0x1234567890123456789012345678901234567890'') empty_world)) = []
   \<and> fst (run (mock 30000 (Resolves unsafe_response)) example_client (Validate example_request)
          empty_world) =
     Inl (PGError \<lparr>message = ''Request timeout'', code = ''TIMEOUT'',
                   statusCode = None, validationResult = None\<rparr>)"
proof -
  let ?a = "CheckAgent ''0x1234567890123456789012345678901234567890''"
  note t1 = timeout_and_timer_disarmed [of never_responds example_client ?a empty_world]
  note t2 = timeout_and_timer_disarmed
    [of "mock 30000 (Resolves unsafe_response)" example_client "Validate example_request"
        empty_world]
  have n: "never_responds (length (issued empty_world)) (call_of example_client ?a) = Never"
    by (simp add: never_responds_def)
  have m: "this_timeout (config example_client) = Some 30000 \<and> (1::int) \<le> 30000
           \<and> mock 30000 (Resolves unsafe_response) (length (issued empty_world))
                (call_of example_client (Validate example_request))
              = After 30000 (Resolves unsafe_response)
           \<and> (30000::int) \<le> int 30000
           \<and> timer_delay (this_timeout (config example_client)) \<le> 30000"
    by (simp add: mock_def example_client_def timer_delay_def TIMEOUT_MAX_def)
  have e: "timers empty_world = []"
    by (simp add: empty_world_def)
  from t1 n have "fst (run never_responds example_client ?a empty_world) =
     Inl (PGError \<lparr>message = ''Request timeout'', code = ''TIMEOUT'',
                   statusCode = None, validationResult = None\<rparr>)"
    by blast
  moreover from t1 have "timers (snd (run never_responds example_client ?a empty_world))
                           = timers empty_world"
    by blast
  moreover from t2 m have "fst (run (mock 30000 (Resolves unsafe_response)) example_client
      (Validate example_request) empty_world) =
     Inl (PGError \<lparr>message = ''Request timeout'', code = ''TIMEOUT'',
                   statusCode = None, validationResult = None\<rparr>)"
    by blast
  ultimately show ?thesis by (simp add: e)
qed

section \<open>Wallets and validation ids in URLs\<close>

lemma percent_decode_plain: "CHR ''%'' \<notin> set s \<Longrightarrow> percent_decode s = s"
  by (induction s) auto

lemma url_safe_plain:
  "url_safe c \<Longrightarrow> c \<noteq> CHR ''%'' \<and> \<not> ends_segment c \<and> \<not> ends_parameter c"
  by (auto simp: url_safe_def ends_segment_def ends_parameter_def Let_def)

lemma received_plain:
  assumes "\<forall>c \<in> set s. url_safe c"
  shows "percent_decode (takeWhile (\<lambda>c. \<not> ends_segment c) s) = s"
    and "percent_decode (takeWhile (\<lambda>c. \<not> ends_parameter c) s) = s"
proof -
  from assms have seg: "takeWhile (\<lambda>c. \<not> ends_segment c) s = s"
    by (simp add: takeWhile_eq_all_conv url_safe_plain)
  from assms have par: "takeWhile (\<lambda>c. \<not> ends_parameter c) s = s"
    by (simp add: takeWhile_eq_all_conv url_safe_plain)
  from assms have "CHR ''%'' \<notin> set s"
    using url_safe_plain by blast
  then have plain: "percent_decode s = s"
    by (rule percent_decode_plain)
  show "percent_decode (takeWhile (\<lambda>c. \<not> ends_segment c) s) = s"
    by (simp only: seg plain)
  show "percent_decode (takeWhile (\<lambda>c. \<not> ends_parameter c) s) = s"
    by (simp only: par plain)
qed

text \<open>
  Claim C6, as stated, says that wallets and validation ids are URL-escaped, so that the
  server receives the literal id. The client inserts them as they are: for the id
  \<open>val_1?x\<close> the URL ends in \<open>/evidence/val_1?x\<close> and the server's path segment is \<open>val_1\<close>;
  for the wallet \<open>0xab&admin=1\<close> the query is \<open>wallet=0xab&admin=1\<close> and the server's wallet
  is \<open>0xab\<close>.
\<close>

theorem url_not_escaped_counterexample:
  "url (call_of example_client (GetEvidence ''val_1?x'')) =
     ''https://www.proofgate.xyz/api/evidence/val_1?x''
   \<and> received_evidence_id ''https://www.proofgate.xyz/api''
        (url (call_of example_client (GetEvidence ''val_1?x''))) = ''val_1''
   \<and> url (call_of example_client (CheckAgent ''0xab&admin=1'')) =
     ''https://www.proofgate.xyz/api/agents/check?wallet=0xab&admin=1''
   \<and> received_wallet ''https://www.proofgate.xyz/api''
        (url (call_of example_client (CheckAgent ''0xab&admin=1''))) = ''0xab''"
  by (simp add: fetch_call_def example_client_def str_val_def received_evidence_id_def
      received_wallet_def ends_segment_def ends_parameter_def)

text \<open>
  Claim C6, amended. \<open>checkAgent\<close> and \<open>getEvidence\<close> make one call each, whose URL is the
  configured base URL followed by \<open>/agents/check?wallet=\<close> and the wallet, or by
  \<open>/evidence/\<close> and the validation id, exactly as the caller gave them: the client escapes
  nothing. For a wallet or an id made of letters, digits, \<open>-\<close> and \<open>_\<close> only, what the server
  receives is the literal wallet or id.
\<close>

theorem url_is_verbatim:
  "issued (snd (getEvidence net self validationId w)) =
     issued w @ [call_of self (GetEvidence validationId)]
   \<and> issued (snd (checkAgent net self wallet w)) = issued w @ [call_of self (CheckAgent wallet)]
   \<and> url (call_of self (GetEvidence validationId)) =
       ToString (str_val (this_baseUrl (config self))) @ ''/evidence/'' @ validationId
   \<and> url (call_of self (CheckAgent wallet)) =
       ToString (str_val (this_baseUrl (config self))) @ ''/agents/check?wallet='' @ wallet
   \<and> ((\<forall>c \<in> set validationId. url_safe c) \<longrightarrow>
        received_evidence_id (ToString (str_val (this_baseUrl (config self))))
          (url (call_of self (GetEvidence validationId))) = validationId)
   \<and> ((\<forall>c \<in> set wallet. url_safe c) \<longrightarrow>
        received_wallet (ToString (str_val (this_baseUrl (config self))))
          (url (call_of self (CheckAgent wallet))) = wallet)"
proof (intro conjI impI)
  show "issued (snd (getEvidence net self validationId w)) =
     issued w @ [call_of self (GetEvidence validationId)]"
    using run_world [of net self "GetEvidence validationId" w] by simp
  show "issued (snd (checkAgent net self wallet w)) = issued w @ [call_of self (CheckAgent wallet)]"
    using run_world [of net self "CheckAgent wallet" w] by simp
  show "url (call_of self (GetEvidence validationId)) =
       ToString (str_val (this_baseUrl (config self))) @ ''/evidence/'' @ validationId"
    by (simp add: fetch_call_def)
  show "url (call_of self (CheckAgent wallet)) =
       ToString (str_val (this_baseUrl (config self))) @ ''/agents/check?wallet='' @ wallet"
    by (simp add: fetch_call_def)
next
  assume "\<forall>c \<in> set validationId. url_safe c"
  then show "received_evidence_id (ToString (str_val (this_baseUrl (config self))))
          (url (call_of self (GetEvidence validationId))) = validationId"
    by (simp add: received_evidence_id_def fetch_call_def received_plain)
next
  assume "\<forall>c \<in> set wallet. url_safe c"
  then show "received_wallet (ToString (str_val (this_baseUrl (config self))))
          (url (call_of self (CheckAgent wallet))) = wallet"
    by (simp add: received_wallet_def fetch_call_def received_plain)
qed

lemma url_safe_examples:
  "\<forall>c \<in> set ''val_abc123''. url_safe c"
  "\<forall>c \<in> set ''0x1234567890123456789012345678901234567890''. url_safe c"
  by (simp_all add: url_safe_def)

theorem url_is_verbatim_witness:
  "received_evidence_id (ToString (str_val (this_baseUrl (config example_client))))
     (url (call_of example_client (GetEvidence ''val_abc123''))) = ''val_abc123''
   \<and> received_wallet (ToString (str_val (this_baseUrl (config example_client))))
       (url (call_of example_client (CheckAgent ''0x1234567890123456789012345678901234567890'')))
     = ''0x1234567890123456789012345678901234567890''
   \<and> url (call_of example_client (GetEvidence ''val_abc123'')) =
       ''https://www.proofgate.xyz/api/evidence/val_abc123''"
proof -
  note t = url_is_verbatim [of never_responds example_client "''val_abc123''" empty_world
      "''0x1234567890123456789012345678901234567890''"]
  have b: "ToString (str_val (this_baseUrl (config example_client))) =
             ''https://www.proofgate.xyz/api''"
    by (simp add: example_client_def str_val_def)
  from t url_safe_examples
  have "received_evidence_id (ToString (str_val (this_baseUrl (config example_client))))
     (url (call_of example_client (GetEvidence ''val_abc123''))) = ''val_abc123''"
    by blast
  moreover from t url_safe_examples
  have "received_wallet (ToString (str_val (this_baseUrl (config example_client))))
       (url (call_of example_client (CheckAgent ''0x1234567890123456789012345678901234567890'')))
     = ''0x1234567890123456789012345678901234567890''"
    by blast
  moreover from t
  have "url (call_of example_client (GetEvidence ''val_abc123'')) =
       ToString (str_val (this_baseUrl (config example_client))) @ ''/evidence/'' @ ''val_abc123''"
    by blast
  then have "url (call_of example_client (GetEvidence ''val_abc123'')) =
       ''https://www.proofgate.xyz/api/evidence/val_abc123''"
    by (simp only: b append.simps)
  ultimately show ?thesis by blast
qed

section \<open>The caller's objects\<close>

text \<open>The heap operations: what each leaves at every address.\<close>

lemma fresh_addr_unused: "map_of h a = Some p \<Longrightarrow> a \<noteq> fresh_addr h"
proof -
  assume "map_of h a = Some p"
  then have "(a, p) \<in> set h" by (rule map_of_SomeD)
  then have "a \<in> set (map fst h)" by force
  then have "a \<le> fold max (map fst h) 0" by (rule fold_max_mem)
  then show ?thesis by (simp add: fresh_addr_def)
qed

lemma fresh_addr_free: "map_of h (fresh_addr h) = None"
  using fresh_addr_unused [of h "fresh_addr h"] by (cases "map_of h (fresh_addr h)") auto

lemma get_new_object:
  assumes "new_object w = (r, w1)"
  shows "get_object w1 b = (if b = r then Some [] else get_object w b)"
    and "r = fresh_addr (objects w)"
    and "issued w1 = issued w" and "timers w1 = timers w"
  using assms
  by (auto simp: get_object_def new_object_def Let_def map_add_def fresh_addr_free
      split: option.split)

lemma map_of_update_at:
  "map_of (map (\<lambda>(b, kvs). if b = a then (b, f kvs) else (b, kvs)) h) c =
     (if c = a then map_option f (map_of h a) else map_of h c)"
  by (induction h) auto

lemma get_set_prop:
  "get_object (set_prop a k v w) b =
     (if b = a then map_option (\<lambda>p. put_prop p k v) (get_object w a) else get_object w b)"
  by (simp add: get_object_def set_prop_def map_of_update_at)

lemma get_copy_props:
  "get_object (copy_props a kvs w) b =
     (if b = a then map_option (fold (\<lambda>(k, v) p. put_prop p k v) kvs) (get_object w a)
      else get_object w b)"
proof (induction kvs arbitrary: w)
  case Nil
  show ?case by (cases "get_object w a") simp_all
next
  case (Cons kv kvs)
  obtain k v where kv: "kv = (k, v)" by (cases kv)
  show ?case
    by (cases "get_object w a") (simp_all add: kv Cons.IH get_set_prop)
qed

lemma heap_ops_issued:
  "issued (set_prop a k v w) = issued w" "timers (set_prop a k v w) = timers w"
  by (simp_all add: set_prop_def)

lemma copy_props_issued:
  "issued (copy_props a kvs w) = issued w \<and> timers (copy_props a kvs w) = timers w"
  by (induction kvs arbitrary: w) (auto simp: heap_ops_issued)

lemma map_of_put_prop: "map_of (put_prop p k v) = (map_of p)(k \<mapsto> v)"
  by (induction p) (auto simp: fun_eq_iff)

lemma map_of_spread:
  "distinct (map fst kvs) \<Longrightarrow>
     map_of (fold (\<lambda>(k, v) p. put_prop p k v) kvs p) k =
       (case map_of kvs k of Some v \<Rightarrow> Some v | None \<Rightarrow> map_of p k)"
proof (induction kvs arbitrary: p)
  case Nil
  then show ?case by simp
next
  case (Cons kv kvs)
  obtain k1 v1 where kv: "kv = (k1, v1)" by (cases kv)
  from Cons.prems kv have d: "distinct (map fst kvs)" and n: "k1 \<notin> fst ` set kvs"
    by simp_all
  from n have "map_of kvs k1 = None"
    by (simp add: map_of_eq_None_iff)
  with Cons.IH [OF d] show ?case
    by (auto simp: kv map_of_put_prop split: option.split)
qed

text \<open>Every object that exists before a call is the same object after it.\<close>

lemma constructor_at_frame:
  assumes "get_object w b = Some p"
  shows "get_object (snd (constructor_at w a)) b = Some p"
proof -
  obtain r w1 where nw: "new_object w = (r, w1)"
    by (cases "new_object w")
  from assms have "b \<noteq> fresh_addr (objects w)"
    by (simp add: get_object_def fresh_addr_unused)
  with get_new_object [OF nw] assms have "b \<noteq> r" and "get_object w1 b = Some p"
    by simp_all
  then show ?thesis
    using assms
    by (simp add: constructor_at_def nw get_copy_props get_set_prop
        split: option.split jsval.split)
qed

lemma validate_at_frame:
  assumes "get_object w b = Some p"
  shows "get_object (snd (validate_at net self a w)) b = Some p"
proof -
  obtain r w1 where nw: "new_object w = (r, w1)"
    by (cases "new_object w")
  from assms have "b \<noteq> fresh_addr (objects w)"
    by (simp add: get_object_def fresh_addr_unused)
  with get_new_object [OF nw] assms have "b \<noteq> r" and "get_object w1 b = Some p"
    by simp_all
  moreover
  have "\<And>path opts w'. get_object (snd (request net self path opts w')) b = get_object w' b"
    by (simp add: request_world get_object_def)
  ultimately show ?thesis
    using assms
    by (simp add: validate_at_def nw get_set_prop Let_def split: option.split)
qed


text \<open>The heap-level calls compute what the calls on typed values compute.\<close>

lemma key_is_own_prop:
  "key_is props k f x \<Longrightarrow>
     own_prop props k = (case x of Absent \<Rightarrow> JUndefined | Undefined \<Rightarrow> JUndefined | Value v \<Rightarrow> f v)"
  by (cases x) (simp_all add: own_prop_def)

lemma key_is_spread:
  assumes "key_is props k f x" and "distinct (map fst props)"
  shows "own_prop (fold (\<lambda>(k, v) p. put_prop p k v) props base) k =
           (case x of Absent \<Rightarrow> own_prop base k | Undefined \<Rightarrow> JUndefined | Value v \<Rightarrow> f v)"
  using assms by (cases x) (simp_all add: own_prop_def map_of_spread)

lemma constructor_at_refines:
  assumes obj: "get_object w a = Some props" and cfg: "is_config props cfg"
  shows "case constructor cfg of
           Inl e \<Rightarrow> constructor_at w a = (Inl e, w)
         | Inr pg \<Rightarrow>
             (\<exists>merged. fst (constructor_at w a) = Inr (fresh_addr (objects w))
                \<and> get_object (snd (constructor_at w a)) (fresh_addr (objects w)) = Some merged
                \<and> holds_config merged (config pg))"
proof -
  obtain r w1 where nw: "new_object w = (r, w1)"
    by (cases "new_object w")
  note new = get_new_object [OF nw]
  from cfg have d: "distinct (map fst props)"
    and k1: "key_is props ''apiKey'' JStr (apiKey cfg)"
    and k2: "key_is props ''baseUrl'' JStr (baseUrl cfg)"
    and k3: "key_is props ''chainId'' JNum (chainId cfg)"
    and k4: "key_is props ''guardrailId'' JStr (guardrailId cfg)"
    and k5: "key_is props ''timeout'' JNum (timeout cfg)"
    by (simp_all add: is_config_def)
  let ?base = "[(''baseUrl'', JStr default_baseUrl), (''chainId'', JNum 56),
                (''timeout'', JNum 30000)]"
  let ?merged = "fold (\<lambda>(k, v) p. put_prop p k v) props ?base"
  show ?thesis
  proof (cases "apiKey cfg")
    case Absent
    with obj k1 show ?thesis
      by (simp add: constructor_def constructor_at_def own_prop_def)
  next
    case Undefined
    with obj k1 show ?thesis
      by (simp add: constructor_def constructor_at_def own_prop_def)
  next
    case (Value k)
    with k1 have key: "own_prop props ''apiKey'' = JStr k"
      by (simp add: own_prop_def)
    show ?thesis
    proof (cases "k = [] \<or> \<not> startsWith k ''pg_''")
      case True
      with obj key Value show ?thesis
        by (auto simp: constructor_def constructor_at_def)
    next
      case False
      have res: "constructor_at w a = (Inr r, copy_props r props
                   (set_prop r ''timeout'' (JNum 30000)
                     (set_prop r ''chainId'' (JNum 56)
                       (set_prop r ''baseUrl'' (JStr default_baseUrl) w1))))"
        using obj key False by (simp add: constructor_at_def nw)
      have at_r: "get_object (snd (constructor_at w a)) r = Some ?merged"
        by (simp add: res get_copy_props get_set_prop new(1))
      have "own_prop ?merged ''apiKey'' = JStr k"
        using key_is_spread [OF k1 d, of ?base] Value by simp
      moreover have "own_prop ?merged ''baseUrl'' =
                       str_val (spread_over (Some default_baseUrl) (baseUrl cfg))"
        using key_is_spread [OF k2 d, of ?base]
        by (cases "baseUrl cfg") (simp_all add: own_prop_def str_val_def)
      moreover have "own_prop ?merged ''chainId'' = num_val (spread_over (Some 56) (chainId cfg))"
        using key_is_spread [OF k3 d, of ?base]
        by (cases "chainId cfg") (simp_all add: own_prop_def num_val_def)
      moreover have "own_prop ?merged ''guardrailId'' =
                       str_val (spread_over None (guardrailId cfg))"
        using key_is_spread [OF k4 d, of ?base]
        by (cases "guardrailId cfg") (simp_all add: own_prop_def str_val_def)
      moreover have "own_prop ?merged ''timeout'' =
                       num_val (spread_over (Some 30000) (timeout cfg))"
        using key_is_spread [OF k5 d, of ?base]
        by (cases "timeout cfg") (simp_all add: own_prop_def num_val_def)
      ultimately have "holds_config ?merged
          \<lparr>this_apiKey = k,
           this_baseUrl = spread_over (Some default_baseUrl) (baseUrl cfg),
           this_chainId = spread_over (Some 56) (chainId cfg),
           this_guardrailId = spread_over None (guardrailId cfg),
           this_timeout = spread_over (Some 30000) (timeout cfg)\<rparr>"
        by (simp add: holds_config_def)
      with at_r res new(2) False Value show ?thesis
        by (simp add: constructor_def)
    qed
  qed
qed

lemma validate_at_refines:
  assumes obj: "get_object w a = Some props" and req: "is_request props r"
  shows "fst (validate_at net self a w) = fst (validate net self r w)"
    and "issued (snd (validate_at net self a w)) = issued w @ [call_of self (Validate r)]"
    and "timers (snd (validate_at net self a w)) = timers w"
proof -
  obtain b w1 where nw: "new_object w = (b, w1)"
    by (cases "new_object w")
  note new = get_new_object [OF nw]
  let ?w7 = "set_prop b ''chainId''
               (js_or (own_prop props ''chainId'') (num_val (this_chainId (config self))))
             (set_prop b ''guardrailId''
               (js_or (own_prop props ''guardrailId'') (str_val (this_guardrailId (config self))))
             (set_prop b ''value'' (js_or (own_prop props ''value'') (JStr ''0''))
             (set_prop b ''data'' (own_prop props ''data'')
             (set_prop b ''to'' (own_prop props ''to'')
             (set_prop b ''from'' (own_prop props ''from'') w1)))))"
  have body: "get_object ?w7 b = Some (case validate_body self r of JObj kvs \<Rightarrow> kvs | _ \<Rightarrow> [])"
    using req by (simp add: get_set_prop new(1) is_request_def validate_body_def)
  have same: "issued ?w7 = issued w" "timers ?w7 = timers w"
    by (simp_all add: heap_ops_issued new)
  have run: "validate_at net self a w =
               request net self ''/validate''
                 \<lparr>opt_method = Some ''POST'', opt_body = Some (validate_body self r)\<rparr> ?w7"
    using obj body by (simp add: validate_at_def nw Let_def validate_body_def)
  show "fst (validate_at net self a w) = fst (validate net self r w)"
    by (simp add: run validate_def request_result same)
  show "issued (snd (validate_at net self a w)) = issued w @ [call_of self (Validate r)]"
    by (simp add: run request_world same)
  show "timers (snd (validate_at net self a w)) = timers w"
    by (simp add: run request_world same)
qed

lemma constructor_merges:
  assumes "constructor cfg = Inr pg"
  shows "this_baseUrl (config pg) =
           (case baseUrl cfg of
              Absent \<Rightarrow> Some ''https://www.proofgate.xyz/api'' | Undefined \<Rightarrow> None
            | Value v \<Rightarrow> Some v)"
    and "this_chainId (config pg) =
           (case chainId cfg of Absent \<Rightarrow> Some 56 | Undefined \<Rightarrow> None | Value v \<Rightarrow> Some v)"
    and "this_timeout (config pg) =
           (case timeout cfg of Absent \<Rightarrow> Some 30000 | Undefined \<Rightarrow> None | Value v \<Rightarrow> Some v)"
    and "this_guardrailId (config pg) =
           (case guardrailId cfg of Absent \<Rightarrow> None | Undefined \<Rightarrow> None | Value v \<Rightarrow> Some v)"
  using assms
  by (auto simp: constructor_def default_baseUrl_def split: option.splits if_splits optkey.splits)

lemma caller_world_objects:
  "get_object caller_world 1 = Some override_props"
  "get_object caller_world 2 = Some request_props"
  "fresh_addr (objects caller_world) = 3"
  "issued caller_world = []"
  by (simp_all add: caller_world_def get_object_def fresh_addr_def)

lemma caller_objects_typed:
  "is_config override_props override_config"
  "is_request request_props example_request"
  by (simp_all add: is_config_def is_request_def override_props_def override_config_def
      request_props_def example_request_def own_prop_def str_val_def num_val_def)

text \<open>
  Claim C8. Construction and \<open>validate\<close> work on the heap: each reads the caller's object,
  creates a new object and sets properties of the new object only. Every object that
  exists before the call, the caller's configuration or request among them, has after the
  call the properties it had before, each with its value. The new object of the
  constructor, at an address that was free, holds the merged configuration: for the base
  URL, the chain id and the timeout the caller's value where the caller's object has the
  key and the documented default where it has not. The body that \<open>validate\<close> builds in its
  new object is the one it sends.
\<close>

theorem caller_objects_not_mutated:
  "(\<forall>b p. get_object w b = Some p \<longrightarrow> get_object (snd (constructor_at w a)) b = Some p)
   \<and> (\<forall>b p. get_object w b = Some p \<longrightarrow>
          get_object (snd (validate_at net self a w)) b = Some p)
   \<and> (\<forall>props cfg. get_object w a = Some props \<and> is_config props cfg \<longrightarrow>
          (case constructor cfg of
             Inl e \<Rightarrow> constructor_at w a = (Inl e, w)
           | Inr pg \<Rightarrow>
               (\<exists>merged. fst (constructor_at w a) = Inr (fresh_addr (objects w))
                  \<and> get_object w (fresh_addr (objects w)) = None
                  \<and> get_object (snd (constructor_at w a)) (fresh_addr (objects w)) = Some merged
                  \<and> holds_config merged (config pg))))
   \<and> (\<forall>props r. get_object w a = Some props \<and> is_request props r \<longrightarrow>
          fst (validate_at net self a w) = fst (validate net self r w)
          \<and> issued (snd (validate_at net self a w)) = issued w @ [call_of self (Validate r)]
          \<and> timers (snd (validate_at net self a w)) = timers w)
   \<and> (\<forall>cfg pg. constructor cfg = Inr pg \<longrightarrow>
          this_baseUrl (config pg) =
            (case baseUrl cfg of
               Absent \<Rightarrow> Some ''https://www.proofgate.xyz/api'' | Undefined \<Rightarrow> None
             | Value v \<Rightarrow> Some v)
          \<and> this_chainId (config pg) =
            (case chainId cfg of Absent \<Rightarrow> Some 56 | Undefined \<Rightarrow> None | Value v \<Rightarrow> Some v)
          \<and> this_timeout (config pg) =
            (case timeout cfg of Absent \<Rightarrow> Some 30000 | Undefined \<Rightarrow> None | Value v \<Rightarrow> Some v)
          \<and> this_guardrailId (config pg) =
            (case guardrailId cfg of Absent \<Rightarrow> None | Undefined \<Rightarrow> None | Value v \<Rightarrow> Some v))"
proof (intro conjI allI impI)
  fix b p
  assume "get_object w b = Some p"
  then show "get_object (snd (constructor_at w a)) b = Some p"
    by (rule constructor_at_frame)
next
  fix b p
  assume "get_object w b = Some p"
  then show "get_object (snd (validate_at net self a w)) b = Some p"
    by (rule validate_at_frame)
next
  fix props cfg
  assume h: "get_object w a = Some props \<and> is_config props cfg"
  have free: "get_object w (fresh_addr (objects w)) = None"
    by (simp add: get_object_def fresh_addr_free)
  from h have "case constructor cfg of
           Inl e \<Rightarrow> constructor_at w a = (Inl e, w)
         | Inr pg \<Rightarrow>
             (\<exists>merged. fst (constructor_at w a) = Inr (fresh_addr (objects w))
                \<and> get_object (snd (constructor_at w a)) (fresh_addr (objects w)) = Some merged
                \<and> holds_config merged (config pg))"
    by (blast intro: constructor_at_refines)
  with free show "case constructor cfg of
             Inl e \<Rightarrow> constructor_at w a = (Inl e, w)
           | Inr pg \<Rightarrow>
               (\<exists>merged. fst (constructor_at w a) = Inr (fresh_addr (objects w))
                  \<and> get_object w (fresh_addr (objects w)) = None
                  \<and> get_object (snd (constructor_at w a)) (fresh_addr (objects w)) = Some merged
                  \<and> holds_config merged (config pg))"
    by (cases "constructor cfg") simp_all
next
  fix props r
  assume h: "get_object w a = Some props \<and> is_request props r"
  then show "fst (validate_at net self a w) = fst (validate net self r w)"
    by (blast intro: validate_at_refines(1))
  from h show "issued (snd (validate_at net self a w)) = issued w @ [call_of self (Validate r)]"
    by (blast intro: validate_at_refines(2))
  from h show "timers (snd (validate_at net self a w)) = timers w"
    by (blast intro: validate_at_refines(3))
qed (simp_all add: constructor_merges)

theorem caller_objects_not_mutated_witness:
  "get_object (snd (constructor_at caller_world 1)) 1 = Some override_props
   \<and> get_object (snd (constructor_at caller_world 1)) 2 = Some request_props
   \<and> fst (constructor_at caller_world 1) = Inr 3
   \<and> (\<exists>merged. get_object (snd (constructor_at caller_world 1)) 3 = Some merged
         \<and> holds_config merged (config override_client))
   \<and> get_object (snd (validate_at never_responds override_client 2 caller_world)) 2 =
       Some request_props
   \<and> issued (snd (validate_at never_responds override_client 2 caller_world)) =
       [call_of override_client (Validate example_request)]
   \<and> this_chainId (config override_client) = Some 8453"
proof -
  note t1 = caller_objects_not_mutated [of caller_world 1 never_responds override_client]
  note t2 = caller_objects_not_mutated [of caller_world 2 never_responds override_client]
  have c: "chainId override_config = Value 8453"
    by (simp add: override_config_def)
  from t1 caller_world_objects(1)
  have "get_object (snd (constructor_at caller_world 1)) 1 = Some override_props"
    by blast
  moreover from t1 caller_world_objects(2)
  have "get_object (snd (constructor_at caller_world 1)) 2 = Some request_props"
    by blast
  moreover from t1 caller_world_objects(1) caller_objects_typed(1)
  have "case constructor override_config of
             Inl e \<Rightarrow> constructor_at caller_world 1 = (Inl e, caller_world)
           | Inr pg \<Rightarrow>
               (\<exists>merged. fst (constructor_at caller_world 1) = Inr (fresh_addr (objects caller_world))
                  \<and> get_object caller_world (fresh_addr (objects caller_world)) = None
                  \<and> get_object (snd (constructor_at caller_world 1))
                       (fresh_addr (objects caller_world)) = Some merged
                  \<and> holds_config merged (config pg))"
    by blast
  then have "fst (constructor_at caller_world 1) = Inr 3
             \<and> (\<exists>merged. get_object (snd (constructor_at caller_world 1)) 3 = Some merged
                   \<and> holds_config merged (config override_client))"
    by (auto simp: constructor_override caller_world_objects(3))
  moreover from t2 caller_world_objects(2)
  have "get_object (snd (validate_at never_responds override_client 2 caller_world)) 2 =
       Some request_props"
    by blast
  moreover from t2 caller_world_objects(2) caller_objects_typed(2)
  have "issued (snd (validate_at never_responds override_client 2 caller_world)) =
       issued caller_world @ [call_of override_client (Validate example_request)]"
    by blast
  moreover from t1 constructor_override
  have "this_chainId (config override_client) =
          (case chainId override_config of Absent \<Rightarrow> Some 56 | Undefined \<Rightarrow> None
           | Value v \<Rightarrow> Some v)"
    by blast
  ultimately show ?thesis
    by (simp add: c caller_world_objects(4) del: call_of.simps)
qed

end
